theory Spec2Isabelle
  imports Complex_Main
begin

section \<open>Supporting functions of the 'reference' command (cnvlib/reference.py)\<close>

text \<open>
  The development embeds \<^verbatim>\<open>cnvlib/reference.py\<close>. Python and numpy floating-point
  numbers are read as real numbers with exact arithmetic; Python integers are \<open>int\<close>
  or, for counts, \<open>nat\<close>; Python strings are \<open>string\<close>.
\<close>

subsection \<open>Data model\<close>

text \<open>
  A \<^verbatim>\<open>CopyNumArray\<close> wraps a numpy structured array: one row per probe with the
  fields chromosome, start, end, gene and coverage, and optional extra columns
  \<^verbatim>\<open>gc\<close>, \<^verbatim>\<open>rmask\<close> and \<^verbatim>\<open>spread\<close>. A column that the array does not have is
  \<open>None\<close>, so that \<^verbatim>\<open>'rmask' in probes\<close> is \<open>rmask probes \<noteq> None\<close>. The field
  \<^verbatim>\<open>end\<close> is called \<open>endp\<close>.
\<close>

record probe =
  chromosome :: string
  start :: int
  endp :: int
  gene :: string
  coverage :: real

record cnarray =
  sample_id :: string
  rows :: "probe list"
  gc :: "real list option"
  rmask :: "real list option"
  spread :: "real list option"

text \<open>In a structured array every column has one entry per row.\<close>

definition wf_cnarray :: "cnarray \<Rightarrow> bool" where
  "wf_cnarray a \<longleftrightarrow>
     (case gc a of None \<Rightarrow> True | Some col \<Rightarrow> length col = length (rows a)) \<and>
     (case rmask a of None \<Rightarrow> True | Some col \<Rightarrow> length col = length (rows a)) \<and>
     (case spread a of None \<Rightarrow> True | Some col \<Rightarrow> length col = length (rows a))"

datatype error =
    IndexError
  | MissingField string
  | ValueError
  | ZeroDivisionError
  | RuntimeError string

text \<open>
  The modules \<^verbatim>\<open>core\<close>, \<^verbatim>\<open>metrics\<close> and \<^verbatim>\<open>params\<close> are imported by
  \<^verbatim>\<open>reference.py\<close>; their code is outside this development. What
  \<^verbatim>\<open>reference.py\<close> uses of them is taken as a parameter: the functions
  \<^verbatim>\<open>core.fbase\<close>, \<^verbatim>\<open>core.guess_chr_x\<close> and \<^verbatim>\<open>core.guess_xx\<close> (called as
  \<^verbatim>\<open>guess_xx(pset, chr_x=chr_x)\<close>), the two estimators of \<^verbatim>\<open>metrics\<close>, and the three
  thresholds of \<^verbatim>\<open>params\<close>.
\<close>

record core =
  fbase :: "string \<Rightarrow> string"
  guess_chr_x :: "cnarray \<Rightarrow> string"
  guess_xx :: "cnarray \<Rightarrow> string \<Rightarrow> bool"

record metrics =
  biweight_location :: "real list \<Rightarrow> real"
  biweight_midvariance :: "real list \<Rightarrow> real"

record params =
  MIN_BIN_COVERAGE :: real
  MAX_BIN_SPREAD :: real
  MAX_REPEAT_FRACTION :: real

subsection \<open>calculate_gc_lo\<close>

text \<open>
  \<^verbatim>\<open>subseq.count('a')\<close> with a one-character argument is the number of occurrences of
  that character, \<open>count_list\<close>. The total is converted to a float, and with
  \<^verbatim>\<open>from __future__ import division\<close> both quotients are true divisions.
\<close>

definition calculate_gc_lo :: "string \<Rightarrow> real \<times> real" where
  "calculate_gc_lo subseq =
     (let cnt_at_lo = count_list subseq CHR ''a'' + count_list subseq CHR ''t'';
          cnt_at_up = count_list subseq CHR ''A'' + count_list subseq CHR ''T'';
          cnt_gc_lo = count_list subseq CHR ''g'' + count_list subseq CHR ''c'';
          cnt_gc_up = count_list subseq CHR ''G'' + count_list subseq CHR ''C'';
          tot = real (cnt_gc_up + cnt_gc_lo + cnt_at_up + cnt_at_lo)
      in if tot = 0 then (0, 0)
         else (real (cnt_gc_lo + cnt_gc_up) / tot, real (cnt_at_lo + cnt_gc_lo) / tot))"

subsection \<open>mask_bad_probes\<close>

text \<open>
  \<^verbatim>\<open>probes['spread']\<close> fails on an array without that column. The comparisons and
  \<^verbatim>\<open>|\<close> work elementwise on columns of the same length.
\<close>

definition mask_bad_probes :: "params \<Rightarrow> cnarray \<Rightarrow> error + bool list" where
  "mask_bad_probes ps probes =
     (case spread probes of
        None \<Rightarrow> Inl (MissingField ''spread'')
      | Some sp \<Rightarrow>
          (let mask = map2 (\<or>)
                 (map (\<lambda>r. coverage r < MIN_BIN_COVERAGE ps) (rows probes))
                 (map (\<lambda>s. s > MAX_BIN_SPREAD ps) sp)
           in case rmask probes of
                None \<Rightarrow> Inr mask
              | Some rm \<Rightarrow> Inr (map2 (\<or>) mask (map (\<lambda>m. m > MAX_REPEAT_FRACTION ps) rm))))"

subsection \<open>shift_sex_chroms\<close>

text \<open>
  \<^verbatim>\<open>pset['coverage'][pset.chromosome == label] op\<close> updates, in place, the coverage of
  the rows whose chromosome is \<open>label\<close>; the model returns the updated array.
\<close>

definition coverage_where :: "string \<Rightarrow> (real \<Rightarrow> real) \<Rightarrow> cnarray \<Rightarrow> cnarray" where
  "coverage_where label f pset =
     pset\<lparr>rows := map (\<lambda>r. if chromosome r = label then r\<lparr>coverage := f (coverage r)\<rparr> else r)
                      (rows pset)\<rparr>"

text \<open>
  \<^verbatim>\<open>shift_sex_chroms\<close> is defined inside \<^verbatim>\<open>combine_probes\<close>, once for each value of
  \<^verbatim>\<open>is_male_normal\<close>; \<^verbatim>\<open>chr_x\<close> and \<^verbatim>\<open>chr_y\<close> are variables of the enclosing
  function.
\<close>

definition shift_sex_chroms :: "core \<Rightarrow> string \<Rightarrow> string \<Rightarrow> bool \<Rightarrow> cnarray \<Rightarrow> cnarray" where
  "shift_sex_chroms co chr_x chr_y is_male_normal pset =
     (let is_xx = guess_xx co pset chr_x in
      if is_male_normal then
        (if is_xx then
           coverage_where chr_y (\<lambda>c. - 1) (coverage_where chr_x (\<lambda>c. c - 1) pset)
         else pset)
      else
        (if is_xx then coverage_where chr_y (\<lambda>c. - 1) pset
         else coverage_where chr_x (\<lambda>c. c + 1) pset))"

subsection \<open>bed2probes\<close>

text \<open>
  Modelled from the spec: \<^verbatim>\<open>CNA.from_rows\<close> (\<^verbatim>\<open>cnvlib/cnarray.py\<close>) is outside this
  development. A row tuple holds the five core fields of the data model, in the order
  chromosome, start, end, gene, coverage, followed by one value for each extra key, in the
  order of \<^verbatim>\<open>extra_keys\<close>; the array gets a column for each extra key. A tuple with the
  wrong number of values is rejected.
\<close>

definition extra_column ::
  "string list \<Rightarrow> (string \<times> int \<times> int \<times> string \<times> real \<times> real list) list \<Rightarrow> string
     \<Rightarrow> real list option" where
  "extra_column extra_keys row_data k =
     (if k \<in> set extra_keys
      then Some (map (\<lambda>(c, s, e, g, v, ex).
                        case map_of (zip extra_keys ex) k of Some x \<Rightarrow> x | None \<Rightarrow> 0) row_data)
      else None)"

definition from_rows ::
  "string \<Rightarrow> (string \<times> int \<times> int \<times> string \<times> real \<times> real list) list \<Rightarrow> string list
     \<Rightarrow> error + cnarray" where
  "from_rows sid row_data extra_keys =
     (if \<exists>(c, s, e, g, v, ex) \<in> set row_data. length ex \<noteq> length extra_keys
      then Inl ValueError
      else Inr \<lparr>sample_id = sid,
                rows = map (\<lambda>(c, s, e, g, v, ex).
                              \<lparr>chromosome = c, start = s, endp = e, gene = g, coverage = v\<rparr>)
                           row_data,
                gc = extra_column extra_keys row_data ''gc'',
                rmask = extra_column extra_keys row_data ''rmask'',
                spread = extra_column extra_keys row_data ''spread''\<rparr>)"

text \<open>
  \<^verbatim>\<open>ngfrills.parse_regions(bed_fname)\<close> reads the intervals of the file; the model takes
  the intervals it yields, \<open>regions\<close>, together with the file name.
\<close>

definition bed2probes ::
  "core \<Rightarrow> string \<Rightarrow> (string \<times> int \<times> int \<times> string) list \<Rightarrow> error + cnarray" where
  "bed2probes co bed_fname regions =
     (let cn_rows = map (\<lambda>(chrom, start, endp, name). (chrom, start, endp, name, 0, [0, 0, 0]))
                        regions
      in from_rows (fbase co bed_fname) cn_rows [''gc'', ''rmask'', ''spread''])"

subsection \<open>combine_probes\<close>

text \<open>
  The test that the probes of \<^verbatim>\<open>pset\<close> are those of \<^verbatim>\<open>cnarr1\<close>. The lengths are
  compared first, so the columns compared elementwise have the same length, and
  \<^verbatim>\<open>(a == b).all()\<close> is their equality.
\<close>

definition probes_match :: "cnarray \<Rightarrow> cnarray \<Rightarrow> bool" where
  "probes_match cnarr1 pset \<longleftrightarrow>
     length (rows cnarr1) = length (rows pset) \<and>
     map chromosome (rows cnarr1) = map chromosome (rows pset) \<and>
     map start (rows cnarr1) = map start (rows pset) \<and>
     map endp (rows cnarr1) = map endp (rows pset) \<and>
     map gene (rows cnarr1) = map gene (rows pset)"

definition mismatch_message :: "string \<Rightarrow> string \<Rightarrow> string" where
  "mismatch_message fname fname0 = fname @ '' probes do not match those in '' @ fname0"

text \<open>
  \<^verbatim>\<open>CNA.read(fname)\<close> loads a file; the model takes each file name with the array that
  reading it gives. The loop over \<^verbatim>\<open>filenames[1:]\<close> stops at the first file whose probes
  do not match, with the \<^verbatim>\<open>RuntimeError\<close>.
\<close>

fun load_rest ::
  "core \<Rightarrow> string \<Rightarrow> string \<Rightarrow> bool \<Rightarrow> string \<Rightarrow> cnarray \<Rightarrow> (string \<times> cnarray) list
     \<Rightarrow> real list list \<Rightarrow> error + real list list" where
  "load_rest co chr_x chr_y is_male_normal fname0 cnarr1 [] all_coverages = Inr all_coverages"
| "load_rest co chr_x chr_y is_male_normal fname0 cnarr1 ((fname, pset) # rest) all_coverages =
     (if \<not> probes_match cnarr1 pset
      then Inl (RuntimeError (mismatch_message fname fname0))
      else load_rest co chr_x chr_y is_male_normal fname0 cnarr1 rest
             (all_coverages @
              [map coverage (rows (shift_sex_chroms co chr_x chr_y is_male_normal pset))]))"

definition chr_y_of :: "string \<Rightarrow> string" where
  "chr_y_of chr_x = (if take 3 chr_x = ''chr'' then ''chrY'' else ''Y'')"

text \<open>
  Lines 31 to 81: the first file is loaded and shifted, then the others. The result is the
  shifted first array and the list \<^verbatim>\<open>all_coverages\<close>. \<^verbatim>\<open>filenames[0]\<close> fails on an
  empty list.
\<close>

definition load_coverages ::
  "core \<Rightarrow> (string \<times> cnarray) list \<Rightarrow> bool \<Rightarrow> error + cnarray \<times> real list list" where
  "load_coverages co files is_male_normal =
     (case files of
        [] \<Rightarrow> Inl IndexError
      | (fname0, loaded1) # rest \<Rightarrow>
          (let chr_x = guess_chr_x co loaded1;
               chr_y = chr_y_of chr_x;
               cnarr1 = shift_sex_chroms co chr_x chr_y is_male_normal loaded1
           in case load_rest co chr_x chr_y is_male_normal fname0 cnarr1 rest
                     [map coverage (rows cnarr1)] of
                Inl e \<Rightarrow> Inl e
              | Inr all_coverages \<Rightarrow> Inr (cnarr1, all_coverages)))"

text \<open>
  \<^verbatim>\<open>numpy.vstack\<close> makes a matrix of a non-empty list of arrays of one length.
\<close>

definition vstack :: "real list list \<Rightarrow> error + real list list" where
  "vstack arrs =
     (case arrs of
        [] \<Rightarrow> Inl ValueError
      | a # _ \<Rightarrow> if list_all (\<lambda>b. length b = length a) arrs then Inr arrs else Inl ValueError)"

text \<open>
  \<^verbatim>\<open>numpy.apply_along_axis(f, 0, m)\<close> applies \<open>f\<close> to each column of the matrix. It
  begins with the column of index 0, so on a matrix without columns, which is what the
  samples of a profile without probes stack to, the call fails; in the numpy this code is
  written for the failure is an \<^verbatim>\<open>IndexError\<close>. A matrix from \<open>vstack\<close> has a row; a
  list without rows is given the same failure.
\<close>

definition apply_along_axis_0 ::
  "(real list \<Rightarrow> real) \<Rightarrow> real list list \<Rightarrow> error + real list" where
  "apply_along_axis_0 f m =
     (case m of
        [] \<Rightarrow> Inl IndexError
      | a # _ \<Rightarrow>
          if length a = 0 then Inl IndexError
          else Inr (map (\<lambda>j. f (map (\<lambda>row. row ! j) m)) [0..<length a]))"

text \<open>Lines 82 to 89: the centre and the spread of each probe.\<close>

definition aggregate :: "metrics \<Rightarrow> real list list \<Rightarrow> error + real list \<times> real list" where
  "aggregate me all_coverages =
     (case vstack all_coverages of
        Inl e \<Rightarrow> Inl e
      | Inr m \<Rightarrow>
          (case apply_along_axis_0 (biweight_location me) m of
             Inl e \<Rightarrow> Inl e
           | Inr cvg_centers \<Rightarrow>
               (case apply_along_axis_0 (biweight_midvariance me) m of
                  Inl e \<Rightarrow> Inl e
                | Inr spreads \<Rightarrow> Inr (cvg_centers, spreads))))"

text \<open>
  Modelled from the spec: the constructor of \<^verbatim>\<open>CopyNumArray\<close> (\<^verbatim>\<open>cnvlib/cnarray.py\<close>)
  is not among the sources. It makes the array with the given sample id, the five core
  columns, and the extra columns passed by keyword.
\<close>

definition CNA ::
  "string \<Rightarrow> string list \<Rightarrow> int list \<Rightarrow> int list \<Rightarrow> string list \<Rightarrow> real list
     \<Rightarrow> real list option \<Rightarrow> real list option \<Rightarrow> real list option \<Rightarrow> cnarray" where
  "CNA sid chromosomes starts ends genes coverages kw_gc kw_rmask kw_spread =
     \<lparr>sample_id = sid,
      rows = map (\<lambda>(c, s, e, g, v).
                    \<lparr>chromosome = c, start = s, endp = e, gene = g, coverage = v\<rparr>)
                 (zip chromosomes (zip starts (zip ends (zip genes coverages)))),
      gc = kw_gc, rmask = kw_rmask, spread = kw_spread\<rparr>"

definition combine_probes ::
  "core \<Rightarrow> metrics \<Rightarrow> (string \<times> cnarray) list \<Rightarrow> bool \<Rightarrow> bool \<Rightarrow> error + cnarray" where
  "combine_probes co me files has_genome is_male_normal =
     (case load_coverages co files is_male_normal of
        Inl e \<Rightarrow> Inl e
      | Inr (cnarr1, all_coverages) \<Rightarrow>
          (case aggregate me all_coverages of
             Inl e \<Rightarrow> Inl e
           | Inr (cvg_centers, spreads) \<Rightarrow>
               (let kw_gc = (case gc cnarr1 of
                               Some g \<Rightarrow> Some g
                             | None \<Rightarrow> if has_genome
                                        then Some (replicate (length (rows cnarr1)) 0)
                                        else None);
                    kw_rmask = (if has_genome
                                then Some (replicate (length (rows cnarr1)) 0)
                                else None)
                in Inr (CNA ''reference''
                          (map chromosome (rows cnarr1)) (map start (rows cnarr1))
                          (map endp (rows cnarr1)) (map gene (rows cnarr1))
                          cvg_centers kw_gc kw_rmask (Some spreads)))))"

subsection \<open>warn_bad_probes\<close>

text \<open>
  Indexing an array with a boolean mask, \<^verbatim>\<open>probes[mask]\<close>, keeps the rows where the mask
  is true, in every column.
\<close>

definition compress :: "bool list \<Rightarrow> 'a list \<Rightarrow> 'a list" where
  "compress flags xs = map snd (filter fst (zip flags xs))"

definition select_rows :: "bool list \<Rightarrow> cnarray \<Rightarrow> cnarray" where
  "select_rows flags a =
     a\<lparr>rows := compress flags (rows a),
       gc := map_option (compress flags) (gc a),
       rmask := map_option (compress flags) (rmask a),
       spread := map_option (compress flags) (spread a)\<rparr>"

text \<open>
  With \<^verbatim>\<open>from __future__ import division\<close>, \<^verbatim>\<open>/\<close> is true division; a zero divisor is
  an error.
\<close>

definition true_div :: "real \<Rightarrow> real \<Rightarrow> error + real" where
  "true_div a b = (if b = 0 then Inl ZeroDivisionError else Inr (a / b))"

text \<open>
  The rows of an array as the loop over \<^verbatim>\<open>fg_bad_probes\<close> reads them: the probe, its
  \<^verbatim>\<open>spread\<close>, and its \<^verbatim>\<open>rmask\<close> when the array has that column.
\<close>

definition field_rows :: "cnarray \<Rightarrow> (probe \<times> real \<times> real option) list" where
  "field_rows a =
     (case spread a of
        None \<Rightarrow> []
      | Some sp \<Rightarrow>
          (case rmask a of
             None \<Rightarrow> map (\<lambda>(r, s). (r, s, None)) (zip (rows a) sp)
           | Some rm \<Rightarrow> map (\<lambda>(r, s, m). (r, s, Some m)) (zip (rows a) (zip sp rm))))"

text \<open>
  One printed line per flagged target: the gene name, or the mark \<^verbatim>\<open>  "\<close> when the gene
  is that of the line before, the label, the coverage, the spread, and the rmask when
  present. The padding of the columns and the rounding of the numbers to three decimals are
  left out.
\<close>

type_synonym line = "string \<times> string \<times> real \<times> real \<times> real option"

fun listing :: "string option \<Rightarrow> (string \<times> probe \<times> real \<times> real option) list \<Rightarrow> line list" where
  "listing last_gene [] = []"
| "listing last_gene ((label, probe, sp, rm) # rest) =
     (if Some (gene probe) = last_gene
      then (''  \"'', label, coverage probe, sp, rm) # listing last_gene rest
      else (gene probe, label, coverage probe, sp, rm) # listing (Some (gene probe)) rest)"

text \<open>
  What \<^verbatim>\<open>warn_bad_probes\<close> writes: for the targets, when some failed, their number, the
  percentage and the lines; for the antitargets, when some failed, their number and the
  percentage. \<^verbatim>\<open>row2label\<close> comes from \<^verbatim>\<open>cnvlib/cnarray.py\<close> and is a parameter.
\<close>

type_synonym report = "(nat \<times> real \<times> line list) option \<times> (nat \<times> real) option"

definition warn_bad_probes :: "params \<Rightarrow> (probe \<Rightarrow> string) \<Rightarrow> cnarray \<Rightarrow> error + report" where
  "warn_bad_probes ps row2label probes =
     (case mask_bad_probes ps probes of
        Inl e \<Rightarrow> Inl e
      | Inr bad_mask \<Rightarrow>
          (let bad_probes = select_rows bad_mask probes;
               fg_index = map (\<lambda>r. gene r \<noteq> ''Background'') (rows bad_probes);
               fg_bad_probes = select_rows fg_index bad_probes;
               bg_bad_probes = select_rows (map Not fg_index) bad_probes
           in case (if length (rows fg_bad_probes) > 0
                    then (case true_div (real (100 * length (rows fg_bad_probes)))
                                 (real (length (filter (\<lambda>r. gene r \<noteq> ''Background'')
                                                   (rows probes)))) of
                            Inl e \<Rightarrow> Inl e
                          | Inr bad_pct \<Rightarrow>
                              Inr (Some (length (rows fg_bad_probes), bad_pct,
                                         listing None
                                           (zip (map row2label (rows fg_bad_probes))
                                                (field_rows fg_bad_probes)))))
                    else Inr None) of
                Inl e \<Rightarrow> Inl e
              | Inr fg \<Rightarrow>
                  (if length (rows bg_bad_probes) > 0
                   then (case true_div (real (100 * length (rows bg_bad_probes)))
                                (real (length (filter (\<lambda>r. gene r = ''Background'')
                                                  (rows probes)))) of
                           Inl e \<Rightarrow> Inl e
                         | Inr bad_pct \<Rightarrow> Inr (fg, Some (length (rows bg_bad_probes), bad_pct)))
                   else Inr (fg, None))))"

subsection \<open>Example data\<close>

text \<open>
  Two samples on three probes, one read as XX and one not by the sex inference of the
  example, and thresholds; the theorems below are instantiated on them.
\<close>

definition example_sample :: cnarray where
  "example_sample =
     \<lparr>sample_id = ''s1'',
      rows = [\<lparr>chromosome = ''chr1'', start = 0, endp = 100, gene = ''A'', coverage = 1 / 2\<rparr>,
              \<lparr>chromosome = ''chrX'', start = 0, endp = 100, gene = ''B'', coverage = 1 / 4\<rparr>,
              \<lparr>chromosome = ''chrY'', start = 0, endp = 100, gene = ''Background'', coverage = - 3\<rparr>],
      gc = None, rmask = Some [0, 1 / 2, 1], spread = Some [1, 0, 0]\<rparr>"

definition example_male :: cnarray where
  "example_male =
     \<lparr>sample_id = ''s2'',
      rows = [\<lparr>chromosome = ''chr1'', start = 0, endp = 100, gene = ''A'', coverage = 0\<rparr>,
              \<lparr>chromosome = ''chrX'', start = 0, endp = 100, gene = ''B'', coverage = - 1\<rparr>,
              \<lparr>chromosome = ''chrY'', start = 0, endp = 100, gene = ''Background'', coverage = 1 / 8\<rparr>],
      gc = None, rmask = None, spread = None\<rparr>"

definition example_core :: core where
  "example_core =
     \<lparr>fbase = (\<lambda>f. f),
      guess_chr_x = (\<lambda>a. ''chrX''),
      guess_xx = (\<lambda>a chr_x. list_all (\<lambda>r. chromosome r \<noteq> chr_x \<or> - 2 / 5 \<le> coverage r) (rows a))\<rparr>"

definition example_params :: params where
  "example_params = \<lparr>MIN_BIN_COVERAGE = - 5, MAX_BIN_SPREAD = 1, MAX_REPEAT_FRACTION = 99 / 100\<rparr>"

subsection \<open>The flat build as the specification words it\<close>

text \<open>
  The specification has the flat build reserve the gc and rmask columns if and only if
  they are requested. This predicate says that of an array, for a given request; it is
  compared with \<open>bed2probes\<close> below.
\<close>

definition columns_as_requested :: "bool \<Rightarrow> cnarray \<Rightarrow> bool" where
  "columns_as_requested requested a \<longleftrightarrow>
     (gc a \<noteq> None) = requested \<and> (rmask a \<noteq> None) = requested"

subsection \<open>The probe grid and the normalization for a given sex\<close>

text \<open>
  The grid of an array is what its probes are apart from the measurements: the chromosome,
  start, end and gene of each row, in order. Two arrays have the same grid when they have
  the same length and agree on these four fields in every row.
\<close>

definition grid :: "cnarray \<Rightarrow> (string \<times> int \<times> int \<times> string) list" where
  "grid a = map (\<lambda>r. (chromosome r, start r, endp r, gene r)) (rows a)"

text \<open>
  The normalization of a sample whose sex is given, rather than inferred inside: the
  function of the source with a sex inference that answers \<open>is_xx\<close> for every sample.
\<close>

definition shift_given_sex :: "bool \<Rightarrow> string \<Rightarrow> string \<Rightarrow> bool \<Rightarrow> cnarray \<Rightarrow> cnarray" where
  "shift_given_sex is_xx chr_x chr_y is_male_normal pset =
     shift_sex_chroms
       \<lparr>fbase = (\<lambda>f. f), guess_chr_x = (\<lambda>a. chr_x), guess_xx = (\<lambda>a x. is_xx)\<rparr>
       chr_x chr_y is_male_normal pset"

text \<open>Estimators for the examples: the mean and the range of a column.\<close>

definition example_metrics :: metrics where
  "example_metrics =
     \<lparr>biweight_location = (\<lambda>xs. sum_list xs / real (length xs)),
      biweight_midvariance = (\<lambda>xs. Max (set xs) - Min (set xs))\<rparr>"

subsection \<open>The robust estimators\<close>

text \<open>
  Modelled from the spec: \<^verbatim>\<open>metrics.biweight_location\<close> and
  \<^verbatim>\<open>metrics.biweight_midvariance\<close> (\<^verbatim>\<open>cnvlib/metrics.py\<close>) are not among the sources.
  The specification names them: the centre of a column is its biweight location, an
  iteratively reweighted M-estimator of central tendency with a fixed tuning constant, and
  the spread is its biweight midvariance, the matching robust estimator of scale; a column
  of equal values, and so a column of one sample, has that value as centre and spread 0.
  The definitions below are Tukey's biweight estimators, in exact real arithmetic. The
  tuning constants and the number of reweighting passes are parameters. The scale of a
  column is the tuning constant times the median absolute deviation from the median; where
  it is zero, as for a column of equal values, the centre is the median and the spread is
  0. A column has at least one value, and the median of no values is left at 0.
\<close>

definition median :: "real list \<Rightarrow> real" where
  "median xs =
     (let s = sort xs; n = length s
      in if n = 0 then 0
         else if odd n then s ! (n div 2)
         else (s ! (n div 2 - 1) + s ! (n div 2)) / 2)"

definition median_absolute_deviation :: "real list \<Rightarrow> real" where
  "median_absolute_deviation xs = median (map (\<lambda>x. \<bar>x - median xs\<bar>) xs)"

text \<open>
  The weight of a value at the scaled distance \<open>u\<close> from the current centre, and one
  reweighting pass: the centre moves by the weighted mean of the deviations.
\<close>

definition biweight :: "real \<Rightarrow> real" where
  "biweight u = (if \<bar>u\<bar> < 1 then (1 - u\<^sup>2)\<^sup>2 else 0)"

definition reweight :: "real \<Rightarrow> real list \<Rightarrow> real \<Rightarrow> real" where
  "reweight scale xs t =
     (let wsum = sum_list (map (\<lambda>x. biweight ((x - t) / scale)) xs)
      in if wsum = 0 then t
         else t + sum_list (map (\<lambda>x. biweight ((x - t) / scale) * (x - t)) xs) / wsum)"

definition spec_biweight_location :: "real \<Rightarrow> nat \<Rightarrow> real list \<Rightarrow> real" where
  "spec_biweight_location c iterations xs =
     (let scale = c * median_absolute_deviation xs
      in if scale = 0 then median xs
         else (reweight scale xs ^^ iterations) (median xs))"

text \<open>
  The midvariance around the median: \<open>n\<close> times the sum of
  \<open>(x - m)\<^sup>2 (1 - u\<^sup>2)\<^sup>4\<close> over the square of the sum of \<open>(1 - u\<^sup>2) (1 - 5 u\<^sup>2)\<close>, both
  sums over the values with \<open>\<bar>u\<bar> < 1\<close>.
\<close>

definition spec_biweight_midvariance :: "real \<Rightarrow> real list \<Rightarrow> real" where
  "spec_biweight_midvariance c xs =
     (let m = median xs; scale = c * median_absolute_deviation xs
      in if scale = 0 then 0
         else
           (let inside = filter (\<lambda>x. \<bar>(x - m) / scale\<bar> < 1) xs;
                num = sum_list (map (\<lambda>x. (x - m)\<^sup>2 * (1 - ((x - m) / scale)\<^sup>2) ^ 4) inside);
                den = sum_list (map (\<lambda>x. (1 - ((x - m) / scale)\<^sup>2)
                                           * (1 - 5 * ((x - m) / scale)\<^sup>2)) inside)
            in if den = 0 then 0 else real (length xs) * num / den\<^sup>2))"

definition spec_metrics :: "real \<Rightarrow> real \<Rightarrow> nat \<Rightarrow> metrics" where
  "spec_metrics c_location c_scale iterations =
     \<lparr>biweight_location = spec_biweight_location c_location iterations,
      biweight_midvariance = spec_biweight_midvariance c_scale\<rparr>"

section \<open>Properties\<close>

subsection \<open>The GC and repeat-masked fractions of a sequence\<close>

lemma count_acgt:
  "count_list s CHR ''G'' + count_list s CHR ''C'' + (count_list s CHR ''g'' + count_list s CHR ''c'')
   + (count_list s CHR ''A'' + count_list s CHR ''T'') + (count_list s CHR ''a'' + count_list s CHR ''t'')
   = length (filter (\<lambda>c. c \<in> set ''atgcATGC'') s)"
  by (induction s) auto

lemma count_gc:
  "count_list s CHR ''g'' + count_list s CHR ''c'' + (count_list s CHR ''G'' + count_list s CHR ''C'')
   = length (filter (\<lambda>c. c \<in> set ''gcGC'') s)"
  by (induction s) auto

lemma count_lo:
  "count_list s CHR ''a'' + count_list s CHR ''t'' + (count_list s CHR ''g'' + count_list s CHR ''c'')
   = length (filter (\<lambda>c. c \<in> set ''atgc'') s)"
  by (induction s) auto

lemma calculate_gc_lo_counts:
  "calculate_gc_lo s =
     (if length (filter (\<lambda>c. c \<in> set ''atgcATGC'') s) = 0 then (0, 0)
      else (real (length (filter (\<lambda>c. c \<in> set ''gcGC'') s))
              / real (length (filter (\<lambda>c. c \<in> set ''atgcATGC'') s)),
            real (length (filter (\<lambda>c. c \<in> set ''atgc'') s))
              / real (length (filter (\<lambda>c. c \<in> set ''atgcATGC'') s))))"
  unfolding calculate_gc_lo_def Let_def count_acgt count_gc count_lo of_nat_eq_0_iff
  by (rule refl)

lemma filter_empty_iff_disjoint:
  "length (filter (\<lambda>c. c \<in> A) s) = 0 \<longleftrightarrow> set s \<inter> A = {}"
  by (auto simp: filter_empty_conv)

lemma length_filter_subset_le:
  "A \<subseteq> B \<Longrightarrow> length (filter (\<lambda>c. c \<in> A) s) \<le> length (filter (\<lambda>c. c \<in> B) s)"
  by (induction s) auto

text \<open>
  Claim C6. For every string \<open>s\<close>, \<open>calculate_gc_lo\<close> returns \<open>(0, 0)\<close> when \<open>s\<close> has no
  character among a, t, g, c, A, T, G, C. Otherwise, with the total the number of such
  characters, the first component is the number of g, c, G, C over the total and the
  second the number of lowercase a, t, g, c over the total. The empty string gives
  \<open>(0, 0)\<close>, \<open>GCgc\<close> gives \<open>(1, 1/2)\<close>, \<open>ATat\<close> gives \<open>(0, 1/2)\<close>, and both components
  always lie between 0 and 1.
\<close>

theorem calculate_gc_lo_spec:
  "(set s \<inter> set ''atgcATGC'' = {} \<longrightarrow> calculate_gc_lo s = (0, 0)) \<and>
   (set s \<inter> set ''atgcATGC'' \<noteq> {} \<longrightarrow>
      calculate_gc_lo s =
        (real (length (filter (\<lambda>c. c \<in> set ''gcGC'') s))
           / real (length (filter (\<lambda>c. c \<in> set ''atgcATGC'') s)),
         real (length (filter (\<lambda>c. c \<in> set ''atgc'') s))
           / real (length (filter (\<lambda>c. c \<in> set ''atgcATGC'') s)))) \<and>
   calculate_gc_lo '''' = (0, 0) \<and>
   calculate_gc_lo ''GCgc'' = (1, 1 / 2) \<and>
   calculate_gc_lo ''ATat'' = (0, 1 / 2) \<and>
   0 \<le> fst (calculate_gc_lo s) \<and> fst (calculate_gc_lo s) \<le> 1 \<and>
   0 \<le> snd (calculate_gc_lo s) \<and> snd (calculate_gc_lo s) \<le> 1"
proof -
  let ?tot = "length (filter (\<lambda>c. c \<in> set ''atgcATGC'') s)"
  have none: "set s \<inter> set ''atgcATGC'' = {} \<longrightarrow> calculate_gc_lo s = (0, 0)"
    using filter_empty_iff_disjoint [of "set ''atgcATGC''" s]
    by (simp only: calculate_gc_lo_counts) simp
  have some: "set s \<inter> set ''atgcATGC'' \<noteq> {} \<longrightarrow>
      calculate_gc_lo s =
        (real (length (filter (\<lambda>c. c \<in> set ''gcGC'') s)) / real ?tot,
         real (length (filter (\<lambda>c. c \<in> set ''atgc'') s)) / real ?tot)"
    using filter_empty_iff_disjoint [of "set ''atgcATGC''" s]
    by (simp only: calculate_gc_lo_counts) simp
  have ex: "calculate_gc_lo '''' = (0, 0)" "calculate_gc_lo ''GCgc'' = (1, 1 / 2)"
    "calculate_gc_lo ''ATat'' = (0, 1 / 2)"
    by (simp_all add: calculate_gc_lo_def)
  have gc_le: "length (filter (\<lambda>c. c \<in> set ''gcGC'') s) \<le> ?tot"
    by (rule length_filter_subset_le) auto
  have lo_le: "length (filter (\<lambda>c. c \<in> set ''atgc'') s) \<le> ?tot"
    by (rule length_filter_subset_le) auto
  have bounds: "0 \<le> fst (calculate_gc_lo s) \<and> fst (calculate_gc_lo s) \<le> 1 \<and>
      0 \<le> snd (calculate_gc_lo s) \<and> snd (calculate_gc_lo s) \<le> 1"
    using gc_le lo_le by (simp only: calculate_gc_lo_counts) (simp add: divide_le_eq)
  from none some ex bounds show ?thesis by blast
qed

text \<open>
  The theorem at a sequence without countable bases and at one with seven of them.
\<close>

theorem calculate_gc_lo_spec_witness:
  "set ''NNnn'' \<inter> set ''atgcATGC'' = {} \<and> calculate_gc_lo ''NNnn'' = (0, 0) \<and>
   set ''GATtaca'' \<inter> set ''atgcATGC'' \<noteq> {} \<and> calculate_gc_lo ''GATtaca'' = (2 / 7, 4 / 7)"
proof -
  have h1: "set ''NNnn'' \<inter> set ''atgcATGC'' = {}" by simp
  have h2: "set ''GATtaca'' \<inter> set ''atgcATGC'' \<noteq> {}" by simp
  from calculate_gc_lo_spec [of "''NNnn''"] h1 have "calculate_gc_lo ''NNnn'' = (0, 0)"
    by blast
  moreover from calculate_gc_lo_spec [of "''GATtaca''"] h2
  have "calculate_gc_lo ''GATtaca'' = (2 / 7, 4 / 7)"
    by simp
  ultimately show ?thesis using h1 h2 by blast
qed

subsection \<open>Sex-chromosome normalization\<close>

lemma rows_coverage_where [simp]:
  "rows (coverage_where label f pset) =
     map (\<lambda>r. if chromosome r = label then r\<lparr>coverage := f (coverage r)\<rparr> else r) (rows pset)"
  by (simp add: coverage_where_def)

lemma more_coverage_where [simp]:
  "sample_id (coverage_where label f pset) = sample_id pset"
  "gc (coverage_where label f pset) = gc pset"
  "rmask (coverage_where label f pset) = rmask pset"
  "spread (coverage_where label f pset) = spread pset"
  by (simp_all add: coverage_where_def)

lemma example_is_xx: "guess_xx example_core example_sample ''chrX''"
  by (simp add: example_core_def example_sample_def)

lemma example_is_not_xx: "\<not> guess_xx example_core example_male ''chrX''"
  by (simp add: example_core_def example_male_def)

lemma example_sample_rows:
  "length (rows example_sample) = 3"
  "rows example_sample ! 0 = \<lparr>chromosome = ''chr1'', start = 0, endp = 100, gene = ''A'', coverage = 1 / 2\<rparr>"
  "rows example_sample ! 1 = \<lparr>chromosome = ''chrX'', start = 0, endp = 100, gene = ''B'', coverage = 1 / 4\<rparr>"
  "rows example_sample ! 2 = \<lparr>chromosome = ''chrY'', start = 0, endp = 100, gene = ''Background'', coverage = - 3\<rparr>"
  "rows example_sample ! Suc 0 = \<lparr>chromosome = ''chrX'', start = 0, endp = 100, gene = ''B'', coverage = 1 / 4\<rparr>"
  by (simp_all add: example_sample_def)

lemma example_male_rows:
  "length (rows example_male) = 3"
  "rows example_male ! 0 = \<lparr>chromosome = ''chr1'', start = 0, endp = 100, gene = ''A'', coverage = 0\<rparr>"
  "rows example_male ! 1 = \<lparr>chromosome = ''chrX'', start = 0, endp = 100, gene = ''B'', coverage = - 1\<rparr>"
  "rows example_male ! 2 = \<lparr>chromosome = ''chrY'', start = 0, endp = 100, gene = ''Background'', coverage = 1 / 8\<rparr>"
  "rows example_male ! Suc 0 = \<lparr>chromosome = ''chrX'', start = 0, endp = 100, gene = ''B'', coverage = - 1\<rparr>"
  by (simp_all add: example_male_def)

text \<open>
  Claim C1. The normalization follows the table of four rows, for every sample profile and
  distinct labels of the X and the Y chromosome. With a male-normal reference and an XX
  sample, every row on X has 1 subtracted from its coverage and every row on Y has its
  coverage set to \<open>-1\<close>; with a male-normal reference and a sample that is not XX, all
  coverages are unchanged; with a female-normal reference and an XX sample, the rows on X
  are unchanged and the rows on Y are set to \<open>-1\<close>; with a female-normal reference and a
  sample that is not XX, the rows on X have 1 added and the rows on Y are unchanged. In
  every case the rows on other chromosomes keep their coverage, and no row is added or
  dropped. The sex of the sample is what \<open>guess_xx\<close> says of it.
\<close>

theorem shift_sex_chroms_table:
  assumes "chr_x \<noteq> chr_y"
  shows "length (rows (shift_sex_chroms co chr_x chr_y is_male_normal pset)) = length (rows pset) \<and>
    (\<forall>i < length (rows pset).
       let r = rows pset ! i;
           r' = rows (shift_sex_chroms co chr_x chr_y is_male_normal pset) ! i
       in (is_male_normal \<and> guess_xx co pset chr_x \<longrightarrow>
             (chromosome r = chr_x \<longrightarrow> coverage r' = coverage r - 1) \<and>
             (chromosome r = chr_y \<longrightarrow> coverage r' = - 1)) \<and>
          (is_male_normal \<and> \<not> guess_xx co pset chr_x \<longrightarrow> coverage r' = coverage r) \<and>
          (\<not> is_male_normal \<and> guess_xx co pset chr_x \<longrightarrow>
             (chromosome r = chr_x \<longrightarrow> coverage r' = coverage r) \<and>
             (chromosome r = chr_y \<longrightarrow> coverage r' = - 1)) \<and>
          (\<not> is_male_normal \<and> \<not> guess_xx co pset chr_x \<longrightarrow>
             (chromosome r = chr_x \<longrightarrow> coverage r' = coverage r + 1) \<and>
             (chromosome r = chr_y \<longrightarrow> coverage r' = coverage r)) \<and>
          (chromosome r \<noteq> chr_x \<and> chromosome r \<noteq> chr_y \<longrightarrow> coverage r' = coverage r))"
  using assms by (simp add: shift_sex_chroms_def Let_def)

text \<open>
  The table on the two example samples, for both references: the X row of index 1, the Y
  row of index 2, and the autosomal row of index 0.
\<close>

theorem shift_sex_chroms_table_witness:
  "''chrX'' \<noteq> ''chrY'' \<and>
   guess_xx example_core example_sample ''chrX'' \<and>
   \<not> guess_xx example_core example_male ''chrX'' \<and>
   coverage (rows (shift_sex_chroms example_core ''chrX'' ''chrY'' True example_sample) ! 1) = - 3 / 4 \<and>
   coverage (rows (shift_sex_chroms example_core ''chrX'' ''chrY'' True example_sample) ! 2) = - 1 \<and>
   coverage (rows (shift_sex_chroms example_core ''chrX'' ''chrY'' True example_male) ! 1) = - 1 \<and>
   coverage (rows (shift_sex_chroms example_core ''chrX'' ''chrY'' False example_sample) ! 1) = 1 / 4 \<and>
   coverage (rows (shift_sex_chroms example_core ''chrX'' ''chrY'' False example_sample) ! 2) = - 1 \<and>
   coverage (rows (shift_sex_chroms example_core ''chrX'' ''chrY'' False example_male) ! 1) = 0 \<and>
   coverage (rows (shift_sex_chroms example_core ''chrX'' ''chrY'' False example_male) ! 2) = 1 / 8 \<and>
   coverage (rows (shift_sex_chroms example_core ''chrX'' ''chrY'' False example_male) ! 0) = 0"
proof -
  have ne: "''chrX'' \<noteq> ''chrY''" by simp
  note table = shift_sex_chroms_table [OF ne, THEN conjunct2, rule_format]
  have a1: "coverage (rows (shift_sex_chroms example_core ''chrX'' ''chrY'' True example_sample) ! 1) = - 3 / 4"
    using table [of 1 example_sample example_core True] example_is_xx
    by (simp add: example_sample_rows Let_def)
  have a2: "coverage (rows (shift_sex_chroms example_core ''chrX'' ''chrY'' True example_sample) ! 2) = - 1"
    using table [of 2 example_sample example_core True] example_is_xx
    by (simp add: example_sample_rows Let_def)
  have b1: "coverage (rows (shift_sex_chroms example_core ''chrX'' ''chrY'' True example_male) ! 1) = - 1"
    using table [of 1 example_male example_core True] example_is_not_xx
    by (simp add: example_male_rows Let_def)
  have c1: "coverage (rows (shift_sex_chroms example_core ''chrX'' ''chrY'' False example_sample) ! 1) = 1 / 4"
    using table [of 1 example_sample example_core False] example_is_xx
    by (simp add: example_sample_rows Let_def)
  have c2: "coverage (rows (shift_sex_chroms example_core ''chrX'' ''chrY'' False example_sample) ! 2) = - 1"
    using table [of 2 example_sample example_core False] example_is_xx
    by (simp add: example_sample_rows Let_def)
  have d1: "coverage (rows (shift_sex_chroms example_core ''chrX'' ''chrY'' False example_male) ! 1) = 0"
    using table [of 1 example_male example_core False] example_is_not_xx
    by (simp add: example_male_rows Let_def)
  have d2: "coverage (rows (shift_sex_chroms example_core ''chrX'' ''chrY'' False example_male) ! 2) = 1 / 8"
    using table [of 2 example_male example_core False] example_is_not_xx
    by (simp add: example_male_rows Let_def)
  have d0: "coverage (rows (shift_sex_chroms example_core ''chrX'' ''chrY'' False example_male) ! 0) = 0"
    using table [of 0 example_male example_core False] example_is_not_xx
    by (simp add: example_male_rows Let_def)
  from ne example_is_xx example_is_not_xx a1 a2 b1 c1 c2 d1 d2 d0 show ?thesis by blast
qed

text \<open>
  Claim C9. The normalization changes the coverage field only, and only of rows whose
  chromosome is the X or the Y label: the chromosome, start, end and gene of every row are
  as before, a row on another chromosome is as before in every field, and so are the
  sample id and the extra columns of the array.
\<close>

theorem shift_sex_chroms_frame:
  "sample_id (shift_sex_chroms co chr_x chr_y is_male_normal pset) = sample_id pset \<and>
   gc (shift_sex_chroms co chr_x chr_y is_male_normal pset) = gc pset \<and>
   rmask (shift_sex_chroms co chr_x chr_y is_male_normal pset) = rmask pset \<and>
   spread (shift_sex_chroms co chr_x chr_y is_male_normal pset) = spread pset \<and>
   length (rows (shift_sex_chroms co chr_x chr_y is_male_normal pset)) = length (rows pset) \<and>
   (\<forall>i < length (rows pset).
      let r = rows pset ! i;
          r' = rows (shift_sex_chroms co chr_x chr_y is_male_normal pset) ! i
      in r' = r\<lparr>coverage := coverage r'\<rparr> \<and>
         chromosome r' = chromosome r \<and> start r' = start r \<and> endp r' = endp r \<and>
         gene r' = gene r \<and>
         (chromosome r \<noteq> chr_x \<and> chromosome r \<noteq> chr_y \<longrightarrow> r' = r))"
  by (simp add: shift_sex_chroms_def Let_def)

text \<open>The frame on the XX example sample under a male-normal reference.\<close>

theorem shift_sex_chroms_frame_witness:
  "rows (shift_sex_chroms example_core ''chrX'' ''chrY'' True example_sample) ! 0
     = rows example_sample ! 0 \<and>
   gene (rows (shift_sex_chroms example_core ''chrX'' ''chrY'' True example_sample) ! 1) = ''B'' \<and>
   start (rows (shift_sex_chroms example_core ''chrX'' ''chrY'' True example_sample) ! 2) = 0 \<and>
   endp (rows (shift_sex_chroms example_core ''chrX'' ''chrY'' True example_sample) ! 2) = 100 \<and>
   rmask (shift_sex_chroms example_core ''chrX'' ''chrY'' True example_sample) = Some [0, 1 / 2, 1]"
proof -
  note frame = shift_sex_chroms_frame [of example_core "''chrX''" "''chrY''" True example_sample]
  note row = frame [THEN conjunct2, THEN conjunct2, THEN conjunct2, THEN conjunct2,
      THEN conjunct2, rule_format]
  have r0: "rows (shift_sex_chroms example_core ''chrX'' ''chrY'' True example_sample) ! 0
     = rows example_sample ! 0"
    using row [of 0] by (simp add: example_sample_rows Let_def)
  have r1: "gene (rows (shift_sex_chroms example_core ''chrX'' ''chrY'' True example_sample) ! 1) = ''B''"
    using row [of 1] by (simp add: example_sample_rows Let_def)
  have r2: "start (rows (shift_sex_chroms example_core ''chrX'' ''chrY'' True example_sample) ! 2) = 0"
    "endp (rows (shift_sex_chroms example_core ''chrX'' ''chrY'' True example_sample) ! 2) = 100"
    using row [of 2] by (simp_all add: example_sample_rows Let_def)
  have rm: "rmask (shift_sex_chroms example_core ''chrX'' ''chrY'' True example_sample) = Some [0, 1 / 2, 1]"
    using frame by (simp add: example_sample_def)
  from r0 r1 r2 rm show ?thesis by blast
qed

subsection \<open>The mask of bad probes\<close>

text \<open>
  Claim C4. On a profile with a spread column, \<open>mask_bad_probes\<close> returns one boolean for
  each probe, and the boolean of a probe is true if and only if its coverage is below
  \<open>MIN_BIN_COVERAGE\<close>, or its spread is above \<open>MAX_BIN_SPREAD\<close>, or the profile has an
  rmask column and the rmask of the probe is above \<open>MAX_REPEAT_FRACTION\<close>; all three
  comparisons are strict.
\<close>

theorem mask_bad_probes_iff:
  assumes "wf_cnarray probes" and "spread probes = Some sp"
  shows "\<exists>m. mask_bad_probes ps probes = Inr m \<and> length m = length (rows probes) \<and>
    (\<forall>i < length (rows probes).
       m ! i \<longleftrightarrow>
         coverage (rows probes ! i) < MIN_BIN_COVERAGE ps \<or>
         sp ! i > MAX_BIN_SPREAD ps \<or>
         (\<exists>rm. rmask probes = Some rm \<and> rm ! i > MAX_REPEAT_FRACTION ps))"
  using assms
  by (cases "rmask probes") (auto simp: mask_bad_probes_def wf_cnarray_def Let_def)

text \<open>
  On the example sample the third probe alone is flagged, by its rmask of 1.
\<close>

theorem mask_bad_probes_iff_witness:
  "wf_cnarray example_sample \<and> spread example_sample = Some [1, 0, 0] \<and>
   mask_bad_probes example_params example_sample = Inr [False, False, True]"
proof -
  have wf: "wf_cnarray example_sample"
    by (simp add: wf_cnarray_def example_sample_def)
  have sp: "spread example_sample = Some [1, 0, 0]"
    by (simp add: example_sample_def)
  from mask_bad_probes_iff [OF wf sp, of example_params]
  obtain m where m: "mask_bad_probes example_params example_sample = Inr m"
    and len: "length m = length (rows example_sample)"
    and nth: "\<forall>i < length (rows example_sample).
       m ! i \<longleftrightarrow>
         coverage (rows example_sample ! i) < MIN_BIN_COVERAGE example_params \<or>
         [1, 0, 0] ! i > MAX_BIN_SPREAD example_params \<or>
         (\<exists>rm. rmask example_sample = Some rm \<and> rm ! i > MAX_REPEAT_FRACTION example_params)"
    by blast
  have rm: "rmask example_sample = Some [0, 1 / 2, 1]"
    by (simp add: example_sample_def)
  have "m ! 0 = False" "m ! 1 = False" "m ! 2 = True"
    using nth [rule_format, of 0] nth [rule_format, of 1] nth [rule_format, of 2]
    by (simp_all add: example_sample_rows example_params_def rm)
  with len have "m = [False, False, True]"
    by (auto simp: example_sample_rows length_Suc_conv numeral_3_eq_3)
  with m wf sp show ?thesis by simp
qed

subsection \<open>The flat build\<close>

lemma extra_column_flat:
  "k \<in> {''gc'', ''rmask'', ''spread''} \<Longrightarrow>
   extra_column [''gc'', ''rmask'', ''spread'']
     (map (\<lambda>(chrom, start, endp, name). (chrom, start, endp, name, 0, [0, 0, 0])) regions) k
   = Some (replicate (length regions) 0)"
  by (auto simp: extra_column_def map_replicate_const [symmetric] split_beta
      simp del: map_replicate_const)

text \<open>
  Claim C5, as amended. For every ordered list of intervals, \<open>bed2probes\<close> gives a
  profile with one row for each interval, in order, with the chromosome, start and end of
  the interval, the gene equal to its name and the coverage 0; the spread is 0 for every
  row, and the gc and the rmask column are always there, filled with 0: the function takes
  no request for them.
\<close>

theorem bed2probes_flat:
  "bed2probes co bed_fname regions =
     Inr \<lparr>sample_id = fbase co bed_fname,
          rows = map (\<lambda>(chrom, s, e, name).
                        \<lparr>chromosome = chrom, start = s, endp = e, gene = name, coverage = 0\<rparr>)
                     regions,
          gc = Some (replicate (length regions) 0),
          rmask = Some (replicate (length regions) 0),
          spread = Some (replicate (length regions) 0)\<rparr>"
  by (simp add: bed2probes_def from_rows_def extra_column_flat split_beta comp_def)

text \<open>The flat build from two intervals.\<close>

theorem bed2probes_flat_witness:
  "bed2probes example_core ''targets.bed'' [(''chr1'', 10, 20, ''G1''), (''chr2'', 5, 9, ''Background'')] =
     Inr \<lparr>sample_id = ''targets.bed'',
          rows = [\<lparr>chromosome = ''chr1'', start = 10, endp = 20, gene = ''G1'', coverage = 0\<rparr>,
                  \<lparr>chromosome = ''chr2'', start = 5, endp = 9, gene = ''Background'', coverage = 0\<rparr>],
          gc = Some [0, 0], rmask = Some [0, 0], spread = Some [0, 0]\<rparr>"
  using bed2probes_flat [of example_core "''targets.bed''"
      "[(''chr1'', 10, 20, ''G1''), (''chr2'', 5, 9, ''Background'')]"]
  by (simp add: example_core_def numeral_2_eq_2)

text \<open>
  The claim as first stated has the gc and rmask columns present if and only if they were
  requested. The flat build from one interval has both columns, which is not what the
  specification words ask for when nothing is requested.
\<close>

theorem bed2probes_columns_counterexample:
  "bed2probes example_core ''targets.bed'' [(''chr1'', 10, 20, ''G1'')] =
     Inr \<lparr>sample_id = ''targets.bed'',
          rows = [\<lparr>chromosome = ''chr1'', start = 10, endp = 20, gene = ''G1'', coverage = 0\<rparr>],
          gc = Some [0], rmask = Some [0], spread = Some [0]\<rparr> \<and>
   \<not> columns_as_requested False
     \<lparr>sample_id = ''targets.bed'',
      rows = [\<lparr>chromosome = ''chr1'', start = 10, endp = 20, gene = ''G1'', coverage = 0\<rparr>],
      gc = Some [0], rmask = Some [0], spread = Some [0]\<rparr>"
  by (simp add: bed2probes_def from_rows_def extra_column_def example_core_def
      columns_as_requested_def)

subsection \<open>The report of bad probes\<close>

lemma set_compress: "set (compress flags xs) \<subseteq> set xs"
  by (auto simp: compress_def dest: set_zip_rightD)

lemma compress_map_filter: "compress (map P xs) xs = filter P xs"
  by (induction xs) (auto simp: compress_def)

lemma compress_map_Not_filter: "compress (map Not (map P xs)) xs = filter (\<lambda>x. \<not> P x) xs"
  by (induction xs) (auto simp: compress_def)

lemma rows_select_rows [simp]: "rows (select_rows flags a) = compress flags (rows a)"
  by (simp add: select_rows_def)

lemma filter_nonempty_mono:
  "set ys \<subseteq> set xs \<Longrightarrow> filter P ys \<noteq> [] \<Longrightarrow> filter P xs \<noteq> []"
  by (auto simp: filter_empty_conv)

lemma true_div_ok: "b \<noteq> 0 \<Longrightarrow> true_div a b = Inr (a / b)"
  by (simp add: true_div_def)

lemma warn_bad_probes_result:
  assumes "mask_bad_probes ps probes = Inr bad"
  shows "warn_bad_probes ps row2label probes =
    (let bad_rows = compress bad (rows probes);
         fg_bad = filter (\<lambda>r. gene r \<noteq> ''Background'') bad_rows;
         bg_bad = filter (\<lambda>r. gene r = ''Background'') bad_rows
     in Inr (if fg_bad = [] then None
             else Some (length fg_bad,
                        real (100 * length fg_bad)
                          / real (length (filter (\<lambda>r. gene r \<noteq> ''Background'') (rows probes))),
                        listing None
                          (zip (map row2label fg_bad)
                               (field_rows
                                  (select_rows (map (\<lambda>r. gene r \<noteq> ''Background'') bad_rows)
                                     (select_rows bad probes))))),
             if bg_bad = [] then None
             else Some (length bg_bad,
                        real (100 * length bg_bad)
                          / real (length (filter (\<lambda>r. gene r = ''Background'') (rows probes))))))"
proof -
  let ?bad_rows = "compress bad (rows probes)"
  let ?fg = "filter (\<lambda>r. gene r \<noteq> ''Background'') ?bad_rows"
  let ?bg = "filter (\<lambda>r. gene r = ''Background'') ?bad_rows"
  have sub: "set ?bad_rows \<subseteq> set (rows probes)" by (rule set_compress)
  have fg_pos: "?fg \<noteq> [] \<Longrightarrow> filter (\<lambda>r. gene r \<noteq> ''Background'') (rows probes) \<noteq> []"
    by (rule filter_nonempty_mono [OF sub])
  have bg_pos: "?bg \<noteq> [] \<Longrightarrow> filter (\<lambda>r. gene r = ''Background'') (rows probes) \<noteq> []"
    by (rule filter_nonempty_mono [OF sub])
  have bgf: "compress (map Not (map (\<lambda>r. gene r \<noteq> ''Background'') ?bad_rows)) ?bad_rows = ?bg"
    by (simp only: compress_map_Not_filter not_not)
  show ?thesis
    using fg_pos bg_pos
    by (simp add: warn_bad_probes_def assms Let_def compress_map_filter bgf true_div_ok
        del: map_map)
qed

lemma warn_bad_probes_error:
  "mask_bad_probes ps probes = Inl e \<Longrightarrow> warn_bad_probes ps row2label probes = Inl e"
  by (simp add: warn_bad_probes_def)

lemma mask_bad_probes_error: "mask_bad_probes ps probes = Inl e \<Longrightarrow> e = MissingField ''spread''"
  by (auto simp: mask_bad_probes_def Let_def split: option.splits)

text \<open>
  Claim C10. The report never divides by zero, for every input profile. Whenever the
  percentage of the targets is computed, that is whenever the report has a part for the
  targets, at least one flagged probe is a target, so the number of probes whose gene is
  not \<open>Background\<close> is positive, and the percentage is 100 times the number flagged over
  it; the same holds for the antitargets and the probes whose gene is \<open>Background\<close>. A
  category with no probe has no flagged probe either: its part of the report is left out,
  and no error is raised.
\<close>

theorem warn_bad_probes_no_zero_division:
  "warn_bad_probes ps row2label probes \<noteq> Inl ZeroDivisionError \<and>
   (\<forall>fg bg. warn_bad_probes ps row2label probes = Inr (fg, bg) \<longrightarrow>
      (\<forall>n pct ls. fg = Some (n, pct, ls) \<longrightarrow>
         0 < n \<and>
         0 < length (filter (\<lambda>r. gene r \<noteq> ''Background'') (rows probes)) \<and>
         pct = real (100 * n)
                 / real (length (filter (\<lambda>r. gene r \<noteq> ''Background'') (rows probes)))) \<and>
      (\<forall>n pct. bg = Some (n, pct) \<longrightarrow>
         0 < n \<and>
         0 < length (filter (\<lambda>r. gene r = ''Background'') (rows probes)) \<and>
         pct = real (100 * n)
                 / real (length (filter (\<lambda>r. gene r = ''Background'') (rows probes)))) \<and>
      (filter (\<lambda>r. gene r \<noteq> ''Background'') (rows probes) = [] \<longrightarrow> fg = None) \<and>
      (filter (\<lambda>r. gene r = ''Background'') (rows probes) = [] \<longrightarrow> bg = None))"
proof (cases "mask_bad_probes ps probes")
  case (Inl e)
  then show ?thesis
    using warn_bad_probes_error [OF Inl, of row2label] mask_bad_probes_error [OF Inl]
    by simp
next
  case (Inr bad)
  let ?bad_rows = "compress bad (rows probes)"
  have sub: "set ?bad_rows \<subseteq> set (rows probes)" by (rule set_compress)
  have fg_pos: "filter (\<lambda>r. gene r \<noteq> ''Background'') ?bad_rows \<noteq> []
      \<Longrightarrow> filter (\<lambda>r. gene r \<noteq> ''Background'') (rows probes) \<noteq> []"
    by (rule filter_nonempty_mono [OF sub])
  have bg_pos: "filter (\<lambda>r. gene r = ''Background'') ?bad_rows \<noteq> []
      \<Longrightarrow> filter (\<lambda>r. gene r = ''Background'') (rows probes) \<noteq> []"
    by (rule filter_nonempty_mono [OF sub])
  show ?thesis
    using fg_pos bg_pos
    by (auto simp: warn_bad_probes_result [OF Inr] Let_def split: if_splits)
qed

text \<open>
  The report on the example sample, where one of the two targets and the one antitarget
  fail; on a profile without a spread column, where the only error is the missing field;
  and on a profile without probes, where both parts are left out.
\<close>

theorem warn_bad_probes_no_zero_division_witness:
  "warn_bad_probes \<lparr>MIN_BIN_COVERAGE = 1 / 2, MAX_BIN_SPREAD = 1, MAX_REPEAT_FRACTION = 2\<rparr>
     chromosome example_sample
     = Inr (Some (1, 50, [(''B'', ''chrX'', 1 / 4, 0, Some (1 / 2))]), Some (1, 100)) \<and>
   0 < length (filter (\<lambda>r. gene r \<noteq> ''Background'') (rows example_sample)) \<and>
   0 < length (filter (\<lambda>r. gene r = ''Background'') (rows example_sample)) \<and>
   warn_bad_probes \<lparr>MIN_BIN_COVERAGE = 1 / 2, MAX_BIN_SPREAD = 1, MAX_REPEAT_FRACTION = 2\<rparr>
     chromosome example_male = Inl (MissingField ''spread'') \<and>
   warn_bad_probes \<lparr>MIN_BIN_COVERAGE = 1 / 2, MAX_BIN_SPREAD = 1, MAX_REPEAT_FRACTION = 2\<rparr>
     chromosome (example_sample\<lparr>rows := [], rmask := Some [], spread := Some []\<rparr>)
     = Inr (None, None)"
proof -
  let ?ps = "\<lparr>MIN_BIN_COVERAGE = 1 / 2, MAX_BIN_SPREAD = 1, MAX_REPEAT_FRACTION = 2\<rparr>"
  let ?empty = "example_sample\<lparr>rows := [], rmask := Some [], spread := Some []\<rparr>"
  have run: "warn_bad_probes ?ps chromosome example_sample
     = Inr (Some (1, 50, [(''B'', ''chrX'', 1 / 4, 0, Some (1 / 2))]), Some (1, 100))"
    by (simp add: warn_bad_probes_def mask_bad_probes_def example_sample_def select_rows_def
        compress_def true_div_def field_rows_def Let_def)
  have male: "warn_bad_probes ?ps chromosome example_male = Inl (MissingField ''spread'')"
    by (simp add: warn_bad_probes_def mask_bad_probes_def example_male_def)
  have empty: "\<exists>fg bg. warn_bad_probes ?ps chromosome ?empty = Inr (fg, bg)"
    by (simp add: warn_bad_probes_def mask_bad_probes_def select_rows_def
        compress_def Let_def)
  then obtain fg bg where e: "warn_bad_probes ?ps chromosome ?empty = Inr (fg, bg)"
    by blast
  have "fg = None" "bg = None"
    using warn_bad_probes_no_zero_division [of ?ps chromosome ?empty] e by simp_all
  with e have none: "warn_bad_probes ?ps chromosome ?empty = Inr (None, None)"
    by simp
  have pos: "0 < length (filter (\<lambda>r. gene r \<noteq> ''Background'') (rows example_sample))"
    "0 < length (filter (\<lambda>r. gene r = ''Background'') (rows example_sample))"
    using warn_bad_probes_no_zero_division [of ?ps chromosome example_sample] run
    by simp_all
  from run pos male none show ?thesis by blast
qed

subsection \<open>Pooling samples\<close>

lemma grid_eq_iff:
  "grid a = grid b \<longleftrightarrow>
     length (rows a) = length (rows b) \<and>
     (\<forall>i < length (rows a).
        chromosome (rows a ! i) = chromosome (rows b ! i) \<and>
        start (rows a ! i) = start (rows b ! i) \<and>
        endp (rows a ! i) = endp (rows b ! i) \<and>
        gene (rows a ! i) = gene (rows b ! i))"
  by (auto simp: grid_def list_eq_iff_nth_eq)

lemma probes_match_iff_grid: "probes_match a b \<longleftrightarrow> grid a = grid b"
  unfolding grid_eq_iff by (auto simp: probes_match_def list_eq_iff_nth_eq)

lemma grid_coverage_where [simp]: "grid (coverage_where label f pset) = grid pset"
  by (simp add: grid_def comp_def)

lemma grid_shift_sex_chroms [simp]:
  "grid (shift_sex_chroms co chr_x chr_y is_male_normal pset) = grid pset"
  by (simp add: shift_sex_chroms_def Let_def)

lemma length_rows_grid: "grid a = grid b \<Longrightarrow> length (rows a) = length (rows b)"
  by (simp add: grid_eq_iff)

lemma load_rest_all_match:
  "\<forall>(f, p) \<in> set rest. probes_match cnarr1 p \<Longrightarrow>
   load_rest co chr_x chr_y is_male_normal fname0 cnarr1 rest acc =
     Inr (acc @ map (\<lambda>(f, p). map coverage
                      (rows (shift_sex_chroms co chr_x chr_y is_male_normal p))) rest)"
  by (induction rest arbitrary: acc) auto

lemma load_rest_first_mismatch:
  "\<forall>(g, q) \<in> set pre. probes_match cnarr1 q \<Longrightarrow> \<not> probes_match cnarr1 p \<Longrightarrow>
   load_rest co chr_x chr_y is_male_normal fname0 cnarr1 (pre @ (f, p) # post) acc =
     Inl (RuntimeError (mismatch_message f fname0))"
  by (induction pre arbitrary: acc) auto

lemma first_mismatch_split:
  assumes "\<exists>(f, p) \<in> set rest. \<not> P p"
  shows "\<exists>pre f p post. rest = pre @ (f, p) # post \<and> (\<forall>(h, q) \<in> set pre. P q) \<and> \<not> P p"
proof -
  from assms have "\<exists>x \<in> set rest. \<not> P (snd x)"
    by (simp add: split_beta)
  from split_list_first_prop [OF this]
  obtain pre x post where "rest = pre @ x # post" "\<not> P (snd x)" "\<forall>y \<in> set pre. P (snd y)"
    by blast
  then have "rest = pre @ (fst x, snd x) # post \<and> (\<forall>(h, q) \<in> set pre. P q) \<and> \<not> P (snd x)"
    by (simp add: split_beta)
  then show ?thesis by blast
qed

lemma vstack_same_length:
  "arrs \<noteq> [] \<Longrightarrow> \<forall>a \<in> set arrs. length a = n \<Longrightarrow> vstack arrs = Inr arrs"
  by (cases arrs) (auto simp: vstack_def list_all_iff)

lemma apply_along_axis_0_columns:
  "m \<noteq> [] \<Longrightarrow> \<forall>a \<in> set m. length a = n \<Longrightarrow> 0 < n \<Longrightarrow>
   apply_along_axis_0 f m = Inr (map (\<lambda>j. f (map (\<lambda>row. row ! j) m)) [0..<n])"
  by (cases m) (simp_all add: apply_along_axis_0_def)

lemma apply_along_axis_0_no_columns:
  "m \<noteq> [] \<Longrightarrow> \<forall>a \<in> set m. length a = 0 \<Longrightarrow> apply_along_axis_0 f m = Inl IndexError"
  by (cases m) (simp_all add: apply_along_axis_0_def)

lemma aggregate_matrix:
  "m \<noteq> [] \<Longrightarrow> \<forall>a \<in> set m. length a = n \<Longrightarrow> 0 < n \<Longrightarrow>
   aggregate me m =
     Inr (map (\<lambda>j. biweight_location me (map (\<lambda>row. row ! j) m)) [0..<n],
          map (\<lambda>j. biweight_midvariance me (map (\<lambda>row. row ! j) m)) [0..<n])"
  using vstack_same_length [of m n]
  by (simp add: aggregate_def apply_along_axis_0_columns [of m n])

lemma aggregate_no_columns:
  "m \<noteq> [] \<Longrightarrow> \<forall>a \<in> set m. length a = 0 \<Longrightarrow> aggregate me m = Inl IndexError"
  using vstack_same_length [of m 0]
  by (simp add: aggregate_def apply_along_axis_0_no_columns [of m])

lemma aggregate_not_matrix:
  "m = [] \<or> (\<exists>a \<in> set m. length a \<noteq> length (hd m)) \<Longrightarrow> aggregate me m = Inl ValueError"
  by (cases m) (auto simp: aggregate_def vstack_def list_all_iff)

lemma more_shift_sex_chroms [simp]:
  "sample_id (shift_sex_chroms co chr_x chr_y is_male_normal pset) = sample_id pset"
  "gc (shift_sex_chroms co chr_x chr_y is_male_normal pset) = gc pset"
  "rmask (shift_sex_chroms co chr_x chr_y is_male_normal pset) = rmask pset"
  "spread (shift_sex_chroms co chr_x chr_y is_male_normal pset) = spread pset"
  by (simp_all add: shift_sex_chroms_def Let_def)

lemma CNA_reference:
  assumes "length centers = length rs"
  shows "CNA sid (map chromosome rs) (map start rs) (map endp rs) (map gene rs) centers kg kr ks =
     \<lparr>sample_id = sid,
      rows = map (\<lambda>j. \<lparr>chromosome = chromosome (rs ! j), start = start (rs ! j),
                        endp = endp (rs ! j), gene = gene (rs ! j), coverage = centers ! j\<rparr>)
                 [0..<length rs],
      gc = kg, rmask = kr, spread = ks\<rparr>"
proof -
  let ?zipped = "zip (map chromosome rs) (zip (map start rs) (zip (map endp rs)
      (zip (map gene rs) centers)))"
  let ?mk = "\<lambda>(c, s, e, g, v). \<lparr>chromosome = c, start = s, endp = e, gene = g, coverage = v\<rparr>"
  let ?row = "\<lambda>j. \<lparr>chromosome = chromosome (rs ! j), start = start (rs ! j),
      endp = endp (rs ! j), gene = gene (rs ! j), coverage = centers ! j\<rparr>"
  have "map ?mk ?zipped = map ?row [0..<length rs]"
  proof (rule nth_equalityI)
    show "length (map ?mk ?zipped) = length (map ?row [0..<length rs])"
      by (simp add: assms)
  next
    fix i
    assume "i < length (map ?mk ?zipped)"
    then have i: "i < length rs" by (simp add: assms)
    then show "map ?mk ?zipped ! i = map ?row [0..<length rs] ! i"
      by (simp add: assms)
  qed
  then show ?thesis by (simp only: CNA_def)
qed

lemma shift_sex_chroms_row_fields:
  assumes "j < length (rows pset)"
  shows "chromosome (rows (shift_sex_chroms co chr_x chr_y is_male_normal pset) ! j)
           = chromosome (rows pset ! j)"
    and "start (rows (shift_sex_chroms co chr_x chr_y is_male_normal pset) ! j) = start (rows pset ! j)"
    and "endp (rows (shift_sex_chroms co chr_x chr_y is_male_normal pset) ! j) = endp (rows pset ! j)"
    and "gene (rows (shift_sex_chroms co chr_x chr_y is_male_normal pset) ! j) = gene (rows pset ! j)"
  using assms grid_shift_sex_chroms [of co chr_x chr_y is_male_normal pset]
  unfolding grid_eq_iff by simp_all

lemma shift_sex_chroms_given_sex:
  "shift_sex_chroms co chr_x chr_y is_male_normal pset =
     shift_given_sex (guess_xx co pset chr_x) chr_x chr_y is_male_normal pset"
  by (simp add: shift_given_sex_def shift_sex_chroms_def)

lemma probes_match_shifted:
  "probes_match (shift_sex_chroms co chr_x chr_y is_male_normal cnarr) p \<longleftrightarrow> grid p = grid cnarr"
  by (auto simp: probes_match_iff_grid)

lemma load_coverages_match:
  assumes "\<forall>(f, p) \<in> set rest. grid p = grid cnarr"
  shows "load_coverages co ((fname0, cnarr) # rest) is_male_normal =
    Inr (shift_sex_chroms co (guess_chr_x co cnarr) (chr_y_of (guess_chr_x co cnarr))
           is_male_normal cnarr,
         map (\<lambda>(f, p). map coverage
                (rows (shift_sex_chroms co (guess_chr_x co cnarr) (chr_y_of (guess_chr_x co cnarr))
                         is_male_normal p)))
             ((fname0, cnarr) # rest))"
proof -
  let ?cx = "guess_chr_x co cnarr"
  let ?c1 = "shift_sex_chroms co ?cx (chr_y_of ?cx) is_male_normal cnarr"
  from assms have "\<forall>(f, p) \<in> set rest. probes_match ?c1 p"
    by (simp add: probes_match_shifted)
  from load_rest_all_match [OF this]
  show ?thesis by (simp add: load_coverages_def Let_def)
qed

lemma load_coverages_mismatch:
  assumes "\<forall>(h, q) \<in> set pre. grid q = grid cnarr" and "grid p \<noteq> grid cnarr"
  shows "load_coverages co ((fname0, cnarr) # pre @ (f, p) # post) is_male_normal =
    Inl (RuntimeError (mismatch_message f fname0))"
proof -
  let ?cx = "guess_chr_x co cnarr"
  let ?c1 = "shift_sex_chroms co ?cx (chr_y_of ?cx) is_male_normal cnarr"
  from assms have "\<forall>(h, q) \<in> set pre. probes_match ?c1 q" "\<not> probes_match ?c1 p"
    by (simp_all add: probes_match_shifted)
  from load_rest_first_mismatch [OF this]
  show ?thesis by (simp add: load_coverages_def Let_def)
qed

lemma combine_probes_assemble:
  "load_coverages co files is_male_normal = Inr (c1, covs) \<Longrightarrow>
   aggregate me covs = Inr (centers, spreads) \<Longrightarrow>
   combine_probes co me files has_genome is_male_normal =
     Inr (CNA ''reference'' (map chromosome (rows c1)) (map start (rows c1))
            (map endp (rows c1)) (map gene (rows c1)) centers
            (case gc c1 of
               Some g \<Rightarrow> Some g
             | None \<Rightarrow> if has_genome then Some (replicate (length (rows c1)) 0) else None)
            (if has_genome then Some (replicate (length (rows c1)) 0) else None)
            (Some spreads))"
  by (simp add: combine_probes_def Let_def)

lemma combine_probes_match:
  assumes "\<forall>(f, p) \<in> set rest. grid p = grid cnarr" and "rows cnarr \<noteq> []"
  shows "combine_probes co me ((fname0, cnarr) # rest) has_genome is_male_normal =
    (let cx = guess_chr_x co cnarr;
         covs = map (\<lambda>(f, p). map coverage
                       (rows (shift_sex_chroms co cx (chr_y_of cx) is_male_normal p)))
                    ((fname0, cnarr) # rest);
         n = length (rows cnarr)
     in Inr \<lparr>sample_id = ''reference'',
             rows = map (\<lambda>j. \<lparr>chromosome = chromosome (rows cnarr ! j),
                               start = start (rows cnarr ! j),
                               endp = endp (rows cnarr ! j),
                               gene = gene (rows cnarr ! j),
                               coverage = biweight_location me (map (\<lambda>row. row ! j) covs)\<rparr>)
                        [0..<n],
             gc = (case gc cnarr of
                     Some g \<Rightarrow> Some g
                   | None \<Rightarrow> if has_genome then Some (replicate n 0) else None),
             rmask = (if has_genome then Some (replicate n 0) else None),
             spread = Some (map (\<lambda>j. biweight_midvariance me (map (\<lambda>row. row ! j) covs))
                              [0..<n])\<rparr>)"
proof -
  let ?cx = "guess_chr_x co cnarr"
  let ?sh = "shift_sex_chroms co ?cx (chr_y_of ?cx) is_male_normal"
  let ?covs = "map (\<lambda>(f, p). map coverage (rows (?sh p))) ((fname0, cnarr) # rest)"
  let ?n = "length (rows cnarr)"
  let ?centers = "map (\<lambda>j. biweight_location me (map (\<lambda>row. row ! j) ?covs)) [0..<?n]"
  let ?spreads = "map (\<lambda>j. biweight_midvariance me (map (\<lambda>row. row ! j) ?covs)) [0..<?n]"
  have "length (rows (?sh p)) = ?n" if "(f, p) \<in> set rest" for f p
  proof -
    from that assms(1) have "grid (?sh p) = grid cnarr" by auto
    then show ?thesis by (rule length_rows_grid)
  qed
  moreover have n1: "length (rows (?sh cnarr)) = ?n"
    by (rule length_rows_grid) simp
  ultimately have len: "\<forall>a \<in> set ?covs. length a = ?n"
    by auto
  have ne: "?covs \<noteq> []" by simp
  from assms(2) have pos: "0 < ?n" by simp
  have agg: "aggregate me ?covs = Inr (?centers, ?spreads)"
    by (rule aggregate_matrix [OF ne len pos])
  have lc: "length ?centers = length (rows (?sh cnarr))"
    by (simp add: n1)
  note run = combine_probes_assemble [OF load_coverages_match [OF assms(1)] agg]
  show ?thesis
    unfolding run CNA_reference [OF lc] Let_def n1
    by (simp add: shift_sex_chroms_row_fields del: list.map)
qed

lemma combine_probes_no_probes:
  assumes "\<forall>(f, p) \<in> set rest. grid p = grid cnarr" and "rows cnarr = []"
  shows "combine_probes co me ((fname0, cnarr) # rest) has_genome is_male_normal = Inl IndexError"
proof -
  let ?cx = "guess_chr_x co cnarr"
  let ?sh = "shift_sex_chroms co ?cx (chr_y_of ?cx) is_male_normal"
  let ?covs = "map (\<lambda>(f, p). map coverage (rows (?sh p))) ((fname0, cnarr) # rest)"
  have "length (rows (?sh p)) = 0" if "(f, p) \<in> set rest" for f p
  proof -
    from that assms(1) have "grid (?sh p) = grid cnarr" by auto
    then have "length (rows (?sh p)) = length (rows cnarr)" by (rule length_rows_grid)
    with assms(2) show ?thesis by simp
  qed
  moreover have "length (rows (?sh cnarr)) = length (rows cnarr)"
    by (rule length_rows_grid) simp
  with assms(2) have "length (rows (?sh cnarr)) = 0" by simp
  ultimately have len: "\<forall>a \<in> set ?covs. length a = 0"
    by auto
  have ne: "?covs \<noteq> []" by simp
  have agg: "aggregate me ?covs = Inl IndexError"
    by (rule aggregate_no_columns [OF ne len])
  show ?thesis
    by (simp add: combine_probes_def load_coverages_match [OF assms(1)] agg del: list.map)
qed

lemma combine_probes_mismatch:
  assumes "\<forall>(h, q) \<in> set pre. grid q = grid cnarr" and "grid p \<noteq> grid cnarr"
  shows "combine_probes co me ((fname0, cnarr) # pre @ (f, p) # post) has_genome is_male_normal =
    Inl (RuntimeError (mismatch_message f fname0))"
  by (simp add: combine_probes_def load_coverages_mismatch [OF assms])

text \<open>
  Claim C3, as amended. With the first file \<open>fname0\<close> and the files \<open>rest\<close> after it,
  \<open>combine_probes\<close> raises the \<^verbatim>\<open>RuntimeError\<close> that names an offending file and the
  first file if and only if some sample after the first has a grid other than that of the
  first sample, that is, differs from it in length or in a chromosome, start, end or gene
  (\<open>grid_eq_iff\<close>). The file named is the first one whose grid differs. When all samples
  have the grid of the first, no such error is raised, and if the grid has at least one
  probe the reference profile is returned: the array named \<open>reference\<close> on the grid of the
  first sample, the coverage of each probe the centre, and its spread the spread, of the
  normalized coverages of the samples at that probe, the gc column that of the first
  sample or else zeros when a genome is given, and the rmask column zeros when a genome is
  given. On a grid without probes the aggregation fails instead.
\<close>

theorem combine_probes_mismatch_iff:
  "((\<exists>f p. (f, p) \<in> set rest \<and> grid p \<noteq> grid cnarr \<and>
        combine_probes co me ((fname0, cnarr) # rest) has_genome is_male_normal =
          Inl (RuntimeError (mismatch_message f fname0)))
      \<longleftrightarrow> (\<exists>(f, p) \<in> set rest. grid p \<noteq> grid cnarr)) \<and>
   (\<forall>pre f p post.
       rest = pre @ (f, p) # post \<and> (\<forall>(h, q) \<in> set pre. grid q = grid cnarr) \<and>
       grid p \<noteq> grid cnarr \<longrightarrow>
       combine_probes co me ((fname0, cnarr) # rest) has_genome is_male_normal =
         Inl (RuntimeError (mismatch_message f fname0))) \<and>
   ((\<forall>(f, p) \<in> set rest. grid p = grid cnarr) \<longrightarrow>
      (\<forall>msg. combine_probes co me ((fname0, cnarr) # rest) has_genome is_male_normal
                \<noteq> Inl (RuntimeError msg))) \<and>
   ((\<forall>(f, p) \<in> set rest. grid p = grid cnarr) \<and> rows cnarr \<noteq> [] \<longrightarrow>
      combine_probes co me ((fname0, cnarr) # rest) has_genome is_male_normal =
        (let cx = guess_chr_x co cnarr;
             covs = map (\<lambda>(f, p). map coverage
                           (rows (shift_sex_chroms co cx (chr_y_of cx) is_male_normal p)))
                        ((fname0, cnarr) # rest);
             n = length (rows cnarr)
         in Inr \<lparr>sample_id = ''reference'',
                 rows = map (\<lambda>j. \<lparr>chromosome = chromosome (rows cnarr ! j),
                                   start = start (rows cnarr ! j),
                                   endp = endp (rows cnarr ! j),
                                   gene = gene (rows cnarr ! j),
                                   coverage = biweight_location me (map (\<lambda>row. row ! j) covs)\<rparr>)
                            [0..<n],
                 gc = (case gc cnarr of
                         Some g \<Rightarrow> Some g
                       | None \<Rightarrow> if has_genome then Some (replicate n 0) else None),
                 rmask = (if has_genome then Some (replicate n 0) else None),
                 spread = Some (map (\<lambda>j. biweight_midvariance me (map (\<lambda>row. row ! j) covs))
                                  [0..<n])\<rparr>)) \<and>
   ((\<forall>(f, p) \<in> set rest. grid p = grid cnarr) \<and> rows cnarr = [] \<longrightarrow>
      combine_probes co me ((fname0, cnarr) # rest) has_genome is_male_normal = Inl IndexError)"
proof (intro conjI)
  show "(\<exists>f p. (f, p) \<in> set rest \<and> grid p \<noteq> grid cnarr \<and>
        combine_probes co me ((fname0, cnarr) # rest) has_genome is_male_normal =
          Inl (RuntimeError (mismatch_message f fname0)))
      \<longleftrightarrow> (\<exists>(f, p) \<in> set rest. grid p \<noteq> grid cnarr)"
  proof
    assume "\<exists>f p. (f, p) \<in> set rest \<and> grid p \<noteq> grid cnarr \<and>
        combine_probes co me ((fname0, cnarr) # rest) has_genome is_male_normal =
          Inl (RuntimeError (mismatch_message f fname0))"
    then show "\<exists>(f, p) \<in> set rest. grid p \<noteq> grid cnarr" by blast
  next
    assume "\<exists>(f, p) \<in> set rest. grid p \<noteq> grid cnarr"
    then have "\<exists>(f, p) \<in> set rest. \<not> (\<lambda>p. grid p = grid cnarr) p" by simp
    from first_mismatch_split [OF this]
    obtain pre f p post where split: "rest = pre @ (f, p) # post"
      and pre: "\<forall>(h, q) \<in> set pre. grid q = grid cnarr" and p: "grid p \<noteq> grid cnarr"
      by blast
    have "combine_probes co me ((fname0, cnarr) # rest) has_genome is_male_normal =
        Inl (RuntimeError (mismatch_message f fname0))"
      unfolding split by (rule combine_probes_mismatch [OF pre p])
    moreover have "(f, p) \<in> set rest" by (simp add: split)
    ultimately show "\<exists>f p. (f, p) \<in> set rest \<and> grid p \<noteq> grid cnarr \<and>
        combine_probes co me ((fname0, cnarr) # rest) has_genome is_male_normal =
          Inl (RuntimeError (mismatch_message f fname0))"
      using p by blast
  qed
next
  show "\<forall>pre f p post.
       rest = pre @ (f, p) # post \<and> (\<forall>(h, q) \<in> set pre. grid q = grid cnarr) \<and>
       grid p \<noteq> grid cnarr \<longrightarrow>
       combine_probes co me ((fname0, cnarr) # rest) has_genome is_male_normal =
         Inl (RuntimeError (mismatch_message f fname0))"
    using combine_probes_mismatch by blast
next
  show "(\<forall>(f, p) \<in> set rest. grid p = grid cnarr) \<longrightarrow>
      (\<forall>msg. combine_probes co me ((fname0, cnarr) # rest) has_genome is_male_normal
                \<noteq> Inl (RuntimeError msg))"
  proof (intro impI allI)
    fix msg
    assume all: "\<forall>(f, p) \<in> set rest. grid p = grid cnarr"
    show "combine_probes co me ((fname0, cnarr) # rest) has_genome is_male_normal
        \<noteq> Inl (RuntimeError msg)"
    proof (cases "rows cnarr = []")
      case True
      from combine_probes_no_probes [OF all True] show ?thesis by simp
    next
      case False
      from combine_probes_match [OF all False] show ?thesis by (simp add: Let_def)
    qed
  qed
next
  show "(\<forall>(f, p) \<in> set rest. grid p = grid cnarr) \<and> rows cnarr \<noteq> [] \<longrightarrow>
      combine_probes co me ((fname0, cnarr) # rest) has_genome is_male_normal =
        (let cx = guess_chr_x co cnarr;
             covs = map (\<lambda>(f, p). map coverage
                           (rows (shift_sex_chroms co cx (chr_y_of cx) is_male_normal p)))
                        ((fname0, cnarr) # rest);
             n = length (rows cnarr)
         in Inr \<lparr>sample_id = ''reference'',
                 rows = map (\<lambda>j. \<lparr>chromosome = chromosome (rows cnarr ! j),
                                   start = start (rows cnarr ! j),
                                   endp = endp (rows cnarr ! j),
                                   gene = gene (rows cnarr ! j),
                                   coverage = biweight_location me (map (\<lambda>row. row ! j) covs)\<rparr>)
                            [0..<n],
                 gc = (case gc cnarr of
                         Some g \<Rightarrow> Some g
                       | None \<Rightarrow> if has_genome then Some (replicate n 0) else None),
                 rmask = (if has_genome then Some (replicate n 0) else None),
                 spread = Some (map (\<lambda>j. biweight_midvariance me (map (\<lambda>row. row ! j) covs))
                                  [0..<n])\<rparr>)"
    using combine_probes_match [of rest cnarr co me fname0 has_genome is_male_normal]
    by blast
next
  show "(\<forall>(f, p) \<in> set rest. grid p = grid cnarr) \<and> rows cnarr = [] \<longrightarrow>
      combine_probes co me ((fname0, cnarr) # rest) has_genome is_male_normal = Inl IndexError"
    using combine_probes_no_probes [of rest cnarr co me fname0 has_genome is_male_normal]
    by blast
qed

lemma example_grids:
  "grid example_male = grid example_sample"
  "grid (example_male\<lparr>rows := []\<rparr>) \<noteq> grid example_sample"
  by (simp_all add: grid_def example_male_def example_sample_def)

lemma example_shifted:
  "map coverage (rows (shift_sex_chroms example_core ''chrX'' ''chrY'' True example_sample))
     = [1 / 2, - 3 / 4, - 1]"
  "map coverage (rows (shift_sex_chroms example_core ''chrX'' ''chrY'' True example_male))
     = [0, - 1, 1 / 8]"
proof -
  show "map coverage (rows (shift_sex_chroms example_core ''chrX'' ''chrY'' True example_sample))
     = [1 / 2, - 3 / 4, - 1]"
    using example_is_xx by (simp add: shift_sex_chroms_def) (simp add: example_sample_def)
  show "map coverage (rows (shift_sex_chroms example_core ''chrX'' ''chrY'' True example_male))
     = [0, - 1, 1 / 8]"
    using example_is_not_xx by (simp add: shift_sex_chroms_def) (simp add: example_male_def)
qed

text \<open>
  Four files of which the third has no probes: the error names it and the first file. Two
  files on one grid of three probes: the reference has the means of the normalized
  coverages as coverage and their ranges as spread, for the estimators of the example.
\<close>

theorem combine_probes_mismatch_iff_witness:
  "grid example_male = grid example_sample \<and>
   grid (example_male\<lparr>rows := []\<rparr>) \<noteq> grid example_sample \<and>
   rows example_sample \<noteq> [] \<and>
   combine_probes example_core example_metrics
     [(''a.cnn'', example_sample), (''b.cnn'', example_male),
      (''c.cnn'', example_male\<lparr>rows := []\<rparr>), (''d.cnn'', example_male)] False True
     = Inl (RuntimeError ''c.cnn probes do not match those in a.cnn'') \<and>
   combine_probes example_core example_metrics
     [(''a.cnn'', example_sample), (''b.cnn'', example_male)] False True
     = Inr \<lparr>sample_id = ''reference'',
            rows = [\<lparr>chromosome = ''chr1'', start = 0, endp = 100, gene = ''A'', coverage = 1 / 4\<rparr>,
                    \<lparr>chromosome = ''chrX'', start = 0, endp = 100, gene = ''B'', coverage = - 7 / 8\<rparr>,
                    \<lparr>chromosome = ''chrY'', start = 0, endp = 100, gene = ''Background'',
                       coverage = - 7 / 16\<rparr>],
            gc = None, rmask = None, spread = Some [1 / 2, 1 / 4, 9 / 8]\<rparr>"
proof -
  note thm1 = combine_probes_mismatch_iff [of
      "[(''b.cnn'', example_male), (''c.cnn'', example_male\<lparr>rows := []\<rparr>), (''d.cnn'', example_male)]"
      example_sample example_core example_metrics "''a.cnn''" False True]
  note thm2 = combine_probes_mismatch_iff [of "[(''b.cnn'', example_male)]"
      example_sample example_core example_metrics "''a.cnn''" False True]
  have split: "[(''b.cnn'', example_male), (''c.cnn'', example_male\<lparr>rows := []\<rparr>), (''d.cnn'', example_male)]
      = [(''b.cnn'', example_male)] @ (''c.cnn'', example_male\<lparr>rows := []\<rparr>) # [(''d.cnn'', example_male)]"
    by simp
  have pre: "\<forall>(h, q) \<in> set [(''b.cnn'', example_male)]. grid q = grid example_sample"
    by (simp add: example_grids)
  have ne: "rows example_sample \<noteq> []"
    by (simp add: example_sample_def)
  from thm1 [THEN conjunct2, THEN conjunct1, rule_format, OF conjI [OF split conjI [OF pre example_grids(2)]]]
  have bad: "combine_probes example_core example_metrics
     [(''a.cnn'', example_sample), (''b.cnn'', example_male),
      (''c.cnn'', example_male\<lparr>rows := []\<rparr>), (''d.cnn'', example_male)] False True
     = Inl (RuntimeError ''c.cnn probes do not match those in a.cnn'')"
    by (simp add: mismatch_message_def)
  have cx: "guess_chr_x example_core example_sample = ''chrX''" "chr_y_of ''chrX'' = ''chrY''"
    by (simp_all add: example_core_def chr_y_of_def)
  from thm2 [THEN conjunct2, THEN conjunct2, THEN conjunct2, THEN conjunct1, THEN mp,
      OF conjI [OF pre ne]]
  have good: "combine_probes example_core example_metrics
     [(''a.cnn'', example_sample), (''b.cnn'', example_male)] False True
     = Inr \<lparr>sample_id = ''reference'',
            rows = [\<lparr>chromosome = ''chr1'', start = 0, endp = 100, gene = ''A'', coverage = 1 / 4\<rparr>,
                    \<lparr>chromosome = ''chrX'', start = 0, endp = 100, gene = ''B'', coverage = - 7 / 8\<rparr>,
                    \<lparr>chromosome = ''chrY'', start = 0, endp = 100, gene = ''Background'',
                       coverage = - 7 / 16\<rparr>],
            gc = None, rmask = None, spread = Some [1 / 2, 1 / 4, 9 / 8]\<rparr>"
    by (simp add: Let_def cx example_shifted example_sample_rows example_metrics_def
        upt_rec [of 0] upt_rec [of 1] upt_rec [of 2] numeral_3_eq_3)
      (simp add: example_sample_def)
  from example_grids ne bad good show ?thesis by blast
qed

text \<open>
  The claim as first stated has a reference profile returned whenever all samples agree on
  the grid. Two files without probes agree on the grid, and the build fails in the
  aggregation.
\<close>

theorem combine_probes_no_probes_counterexample:
  "probes_match (example_male\<lparr>rows := []\<rparr>) (example_male\<lparr>rows := []\<rparr>) \<and>
   combine_probes example_core example_metrics
     [(''a.cnn'', example_male\<lparr>rows := []\<rparr>), (''b.cnn'', example_male\<lparr>rows := []\<rparr>)] False True
     = Inl IndexError"
proof -
  have m: "probes_match (example_male\<lparr>rows := []\<rparr>) (example_male\<lparr>rows := []\<rparr>)"
    by (simp add: probes_match_def)
  have s: "shift_sex_chroms example_core ''chrX'' ''chrY'' True (example_male\<lparr>rows := []\<rparr>)
      = example_male\<lparr>rows := []\<rparr>"
    by (simp add: shift_sex_chroms_def coverage_where_def Let_def)
  have "combine_probes example_core example_metrics
     [(''a.cnn'', example_male\<lparr>rows := []\<rparr>), (''b.cnn'', example_male\<lparr>rows := []\<rparr>)] False True
     = Inl IndexError"
    by (simp add: combine_probes_def load_coverages_def Let_def example_core_def chr_y_of_def
        shift_sex_chroms_def coverage_where_def probes_match_def aggregate_def vstack_def
        apply_along_axis_0_def)
  with m show ?thesis by blast
qed

lemma load_rest_Inr:
  "load_rest co chr_x chr_y is_male_normal fname0 cnarr1 rest acc = Inr r \<Longrightarrow>
   r = acc @ map (\<lambda>(f, p). map coverage
                    (rows (shift_sex_chroms co chr_x chr_y is_male_normal p))) rest"
proof (induction rest arbitrary: acc)
  case Nil
  then show ?case by simp
next
  case (Cons a rest)
  obtain f p where a: "a = (f, p)" by (cases a)
  let ?row = "map coverage (rows (shift_sex_chroms co chr_x chr_y is_male_normal p))"
  from Cons.prems a
  have "load_rest co chr_x chr_y is_male_normal fname0 cnarr1 rest (acc @ [?row]) = Inr r"
    by (simp split: if_splits)
  from Cons.IH [OF this] a show ?case by simp
qed

lemma load_coverages_Inr:
  assumes "load_coverages co files is_male_normal = Inr (cnarr1, all_coverages)"
  shows "\<exists>fname0 first rest. files = (fname0, first) # rest \<and>
    cnarr1 = shift_sex_chroms co (guess_chr_x co first) (chr_y_of (guess_chr_x co first))
               is_male_normal first \<and>
    all_coverages =
      map (\<lambda>(f, p). map coverage
             (rows (shift_sex_chroms co (guess_chr_x co first) (chr_y_of (guess_chr_x co first))
                      is_male_normal p)))
          files"
proof (cases files)
  case Nil
  with assms show ?thesis by (simp add: load_coverages_def)
next
  case (Cons a rest)
  obtain fname0 first where a: "a = (fname0, first)" by (cases a)
  let ?cx = "guess_chr_x co first"
  let ?c1 = "shift_sex_chroms co ?cx (chr_y_of ?cx) is_male_normal first"
  from assms Cons a
  have c1: "cnarr1 = ?c1"
    and lr: "load_rest co ?cx (chr_y_of ?cx) is_male_normal fname0 ?c1 rest [map coverage (rows ?c1)]
      = Inr all_coverages"
    by (auto simp: load_coverages_def Let_def split: sum.splits)
  from load_rest_Inr [OF lr] c1 Cons a show ?thesis by simp
qed

text \<open>
  Claim C7, as amended. In the build from samples, the labels of the X and the Y
  chromosome used for every sample are inferred from the first sample, and the sex of each
  sample is inferred from that sample's own data, by \<open>guess_xx\<close> on the sample with the X
  label of the first: row \<open>i\<close> of the pooled coverages is the coverage of sample \<open>i\<close>
  normalized for its own inferred sex with the labels of the first sample.
\<close>

theorem load_coverages_sex_of_each_sample:
  assumes "load_coverages co files is_male_normal = Inr (cnarr1, all_coverages)"
  shows "\<exists>fname0 first rest. files = (fname0, first) # rest \<and>
    length all_coverages = length files \<and>
    (\<forall>i < length files.
       all_coverages ! i =
         map coverage
           (rows (shift_given_sex (guess_xx co (snd (files ! i)) (guess_chr_x co first))
                    (guess_chr_x co first) (chr_y_of (guess_chr_x co first))
                    is_male_normal (snd (files ! i)))))"
proof -
  from load_coverages_Inr [OF assms]
  obtain fname0 first rest where files: "files = (fname0, first) # rest"
    and covs: "all_coverages =
      map (\<lambda>(f, p). map coverage
             (rows (shift_sex_chroms co (guess_chr_x co first) (chr_y_of (guess_chr_x co first))
                      is_male_normal p)))
          files"
    by blast
  have "length all_coverages = length files"
    by (simp add: covs)
  moreover have "\<forall>i < length files.
       all_coverages ! i =
         map coverage
           (rows (shift_given_sex (guess_xx co (snd (files ! i)) (guess_chr_x co first))
                    (guess_chr_x co first) (chr_y_of (guess_chr_x co first))
                    is_male_normal (snd (files ! i))))"
    by (simp add: covs split_beta shift_sex_chroms_given_sex [symmetric])
  ultimately show ?thesis using files by blast
qed

lemma example_load:
  "load_coverages example_core [(''a.cnn'', example_male), (''b.cnn'', example_sample)] True
     = Inr (example_male, [[0, - 1, 1 / 8], [1 / 2, - 3 / 4, - 1]])"
proof -
  have cx: "guess_chr_x example_core example_male = ''chrX''"
    by (simp add: example_core_def)
  have cy: "chr_y_of ''chrX'' = ''chrY''"
    by (simp add: chr_y_of_def)
  have m: "shift_sex_chroms example_core ''chrX'' ''chrY'' True example_male = example_male"
    using example_is_not_xx by (simp add: shift_sex_chroms_def)
  have s: "map coverage (rows (shift_sex_chroms example_core ''chrX'' ''chrY'' True example_sample))
      = [1 / 2, - 3 / 4, - 1]"
    using example_is_xx by (simp add: shift_sex_chroms_def) (simp add: example_sample_def)
  have g: "grid example_sample = grid example_male"
    by (simp add: example_grids)
  have mc: "map coverage (rows example_male) = [0, - 1, 1 / 8]"
    by (simp add: example_male_def)
  show ?thesis
    by (simp add: load_coverages_def cx cy m s mc Let_def probes_match_iff_grid g)
qed

text \<open>
  A first sample that is not XX followed by one that is, for a male-normal reference: the
  second sample is normalized as XX.
\<close>

theorem load_coverages_sex_of_each_sample_witness:
  "load_coverages example_core [(''a.cnn'', example_male), (''b.cnn'', example_sample)] True
     = Inr (example_male, [[0, - 1, 1 / 8], [1 / 2, - 3 / 4, - 1]]) \<and>
   guess_xx example_core example_sample ''chrX'' \<and>
   map coverage (rows (shift_given_sex True ''chrX'' ''chrY'' True example_sample))
     = [1 / 2, - 3 / 4, - 1]"
proof -
  from load_coverages_sex_of_each_sample [OF example_load]
  have "[[0, - 1, 1 / 8], [1 / 2, - 3 / 4, - 1]] ! 1 =
      map coverage
        (rows (shift_given_sex (guess_xx example_core example_sample (guess_chr_x example_core example_male))
                 (guess_chr_x example_core example_male)
                 (chr_y_of (guess_chr_x example_core example_male)) True example_sample))"
    by auto
  moreover have "guess_chr_x example_core example_male = ''chrX''"
    by (simp add: example_core_def)
  moreover have "chr_y_of ''chrX'' = ''chrY''"
    by (simp add: chr_y_of_def)
  ultimately have "map coverage (rows (shift_given_sex True ''chrX'' ''chrY'' True example_sample))
     = [1 / 2, - 3 / 4, - 1]"
    using example_is_xx by simp
  with example_load example_is_xx show ?thesis by blast
qed

text \<open>
  The claim as first stated takes the sex of every sample from the first sample. On the
  same two files the first sample is not XX, so under a male-normal reference the second
  sample would keep its coverages; the code shifts them, since the second sample is XX.
\<close>

theorem sex_of_first_sample_counterexample:
  "load_coverages example_core [(''a.cnn'', example_male), (''b.cnn'', example_sample)] True
     = Inr (example_male, [[0, - 1, 1 / 8], [1 / 2, - 3 / 4, - 1]]) \<and>
   [[0, - 1, 1 / 8], [1 / 2, - 3 / 4, - 1 :: real]] ! 1 \<noteq>
     map coverage
       (rows (shift_given_sex
                (guess_xx example_core example_male (guess_chr_x example_core example_male))
                (guess_chr_x example_core example_male)
                (chr_y_of (guess_chr_x example_core example_male)) True example_sample))"
proof -
  have "\<not> guess_xx example_core example_male (guess_chr_x example_core example_male)"
    using example_is_not_xx by (simp add: example_core_def)
  then have "map coverage
       (rows (shift_given_sex
                (guess_xx example_core example_male (guess_chr_x example_core example_male))
                (guess_chr_x example_core example_male)
                (chr_y_of (guess_chr_x example_core example_male)) True example_sample))
     = [1 / 2, 1 / 4, - 3]"
    by (simp add: shift_given_sex_def shift_sex_chroms_def example_sample_def)
  with example_load show ?thesis by simp
qed

subsection \<open>Aggregation of the pooled coverages\<close>

lemma median_replicate: "0 < K \<Longrightarrow> median (replicate K x) = x"
  by (simp add: median_def sort_replicate Let_def)

lemma median_absolute_deviation_replicate:
  "0 < K \<Longrightarrow> median_absolute_deviation (replicate K x) = 0"
  using median_replicate [of K 0]
  by (simp add: median_absolute_deviation_def median_replicate)

lemma spec_biweight_location_replicate:
  "0 < K \<Longrightarrow> spec_biweight_location c n (replicate K x) = x"
  by (simp add: spec_biweight_location_def median_absolute_deviation_replicate median_replicate)

lemma spec_biweight_midvariance_replicate:
  "0 < K \<Longrightarrow> spec_biweight_midvariance c (replicate K x) = 0"
  by (simp add: spec_biweight_midvariance_def median_absolute_deviation_replicate)

lemma constant_list_replicate:
  "\<forall>y \<in> set xs. y = x \<Longrightarrow> xs = replicate (length xs) x"
  by (induction xs) auto

lemma constant_column:
  assumes "m \<noteq> []" and "\<forall>row \<in> set m. row ! j = x"
  shows "spec_biweight_location c n (map (\<lambda>row. row ! j) m) = x"
    and "spec_biweight_midvariance c (map (\<lambda>row. row ! j) m) = 0"
proof -
  from assms(2) have "\<forall>y \<in> set (map (\<lambda>row. row ! j) m). y = x" by simp
  from constant_list_replicate [OF this]
  have col: "map (\<lambda>row. row ! j) m = replicate (length m) x" by simp
  from assms(1) have pos: "0 < length m" by simp
  show "spec_biweight_location c n (map (\<lambda>row. row ! j) m) = x"
    unfolding col by (rule spec_biweight_location_replicate [OF pos])
  show "spec_biweight_midvariance c (map (\<lambda>row. row ! j) m) = 0"
    unfolding col by (rule spec_biweight_midvariance_replicate [OF pos])
qed

lemma aggregate_replicate:
  assumes "0 < K" and "v \<noteq> []"
  shows "aggregate (spec_metrics cl cs n) (replicate K v) = Inr (v, replicate (length v) 0)"
proof -
  have ne: "replicate K v \<noteq> []" using assms(1) by simp
  have len: "\<forall>a \<in> set (replicate K v). length a = length v" by simp
  from assms(2) have pos: "0 < length v" by simp
  have c: "\<forall>row \<in> set (replicate K v). row ! j = v ! j" for j by simp
  have "map (\<lambda>j. spec_biweight_location cl n (map (\<lambda>row. row ! j) (replicate K v))) [0..<length v]
      = map (\<lambda>j. v ! j) [0..<length v]"
    by (simp only: constant_column(1) [OF ne c])
  also have "\<dots> = v" by (rule map_nth)
  finally have centers:
    "map (\<lambda>j. spec_biweight_location cl n (map (\<lambda>row. row ! j) (replicate K v))) [0..<length v] = v" .
  have "map (\<lambda>j. spec_biweight_midvariance cs (map (\<lambda>row. row ! j) (replicate K v))) [0..<length v]
      = map (\<lambda>j. 0) [0..<length v]"
    by (simp only: constant_column(2) [OF ne c])
  also have "\<dots> = replicate (length v) 0"
    by (simp add: map_replicate_const)
  finally have spreads:
    "map (\<lambda>j. spec_biweight_midvariance cs (map (\<lambda>row. row ! j) (replicate K v))) [0..<length v]
       = replicate (length v) 0" .
  show ?thesis
    unfolding aggregate_matrix [OF ne len pos] spec_metrics_def metrics.simps centers spreads
    by (rule refl)
qed

lemma aggregate_Inr_matrix:
  assumes "aggregate me m = Inr (centers, spreads)"
  shows "m \<noteq> [] \<and> (\<forall>a \<in> set m. length a = length (hd m)) \<and> 0 < length (hd m) \<and>
   centers = map (\<lambda>j. biweight_location me (map (\<lambda>row. row ! j) m)) [0..<length (hd m)] \<and>
   spreads = map (\<lambda>j. biweight_midvariance me (map (\<lambda>row. row ! j) m)) [0..<length (hd m)]"
proof (cases "m \<noteq> [] \<and> (\<forall>a \<in> set m. length a = length (hd m))")
  case True
  then have m: "m \<noteq> []" "\<forall>a \<in> set m. length a = length (hd m)" by blast+
  show ?thesis
  proof (cases "0 < length (hd m)")
    case pos: True
    from assms [unfolded aggregate_matrix [OF m pos]]
    have "centers = map (\<lambda>j. biweight_location me (map (\<lambda>row. row ! j) m)) [0..<length (hd m)]"
      "spreads = map (\<lambda>j. biweight_midvariance me (map (\<lambda>row. row ! j) m)) [0..<length (hd m)]"
      by simp_all
    with True pos show ?thesis by blast
  next
    case False
    then have z: "length (hd m) = 0" by simp
    from m(2) have "\<forall>a \<in> set m. length a = 0" unfolding z .
    from aggregate_no_columns [OF m(1) this, of me] assms show ?thesis by simp
  qed
next
  case False
  then have "aggregate me m = Inl ValueError"
    by (intro aggregate_not_matrix) blast
  with assms show ?thesis by simp
qed

text \<open>
  Claim C2, as amended. For every \<open>K \<ge> 1\<close> and every coverage vector \<open>v\<close> of at least one
  probe, aggregating \<open>K\<close> rows equal to \<open>v\<close> gives, without error, the centres \<open>v\<close> and the
  spread 0 for every probe. More generally, in any aggregated matrix, a column whose values
  are all equal to \<open>x\<close> has the centre \<open>x\<close> and the spread 0. A vector without probes makes
  the aggregation fail.
\<close>

theorem aggregate_identical_rows:
  "(0 < K \<and> v \<noteq> [] \<longrightarrow>
      aggregate (spec_metrics c_location c_scale iterations) (replicate K v)
        = Inr (v, replicate (length v) 0)) \<and>
   (0 < K \<longrightarrow>
      aggregate (spec_metrics c_location c_scale iterations) (replicate K []) = Inl IndexError) \<and>
   (\<forall>centers spreads j x.
      aggregate (spec_metrics c_location c_scale iterations) m = Inr (centers, spreads) \<and>
      j < length centers \<and> (\<forall>row \<in> set m. row ! j = x) \<longrightarrow>
      centers ! j = x \<and> spreads ! j = 0)"
proof (intro conjI allI impI)
  assume "0 < K \<and> v \<noteq> []"
  then show "aggregate (spec_metrics c_location c_scale iterations) (replicate K v)
        = Inr (v, replicate (length v) 0)"
    using aggregate_replicate by blast
next
  assume "0 < K"
  then have "replicate K ([] :: real list) \<noteq> []" by simp
  moreover have "\<forall>a \<in> set (replicate K ([] :: real list)). length a = 0" by simp
  ultimately show "aggregate (spec_metrics c_location c_scale iterations) (replicate K [])
      = Inl IndexError"
    by (rule aggregate_no_columns)
next
  fix centers spreads j x
  assume a: "aggregate (spec_metrics c_location c_scale iterations) m = Inr (centers, spreads) \<and>
      j < length centers \<and> (\<forall>row \<in> set m. row ! j = x)"
  let ?me = "spec_metrics c_location c_scale iterations"
  from a aggregate_Inr_matrix [of ?me m centers spreads]
  have ne: "m \<noteq> []"
    and centers: "centers = map (\<lambda>j. biweight_location ?me (map (\<lambda>row. row ! j) m)) [0..<length (hd m)]"
    and spreads: "spreads = map (\<lambda>j. biweight_midvariance ?me (map (\<lambda>row. row ! j) m)) [0..<length (hd m)]"
    by blast+
  from a have j: "j < length (hd m)" by (simp add: centers)
  from a have const: "\<forall>row \<in> set m. row ! j = x" by blast
  have "centers ! j = spec_biweight_location c_location iterations (map (\<lambda>row. row ! j) m)"
    using j by (simp add: centers spec_metrics_def)
  then show "centers ! j = x"
    by (simp only: constant_column(1) [OF ne const])
  have "spreads ! j = spec_biweight_midvariance c_scale (map (\<lambda>row. row ! j) m)"
    using j by (simp add: spreads spec_metrics_def)
  then show "spreads ! j = 0"
    by (simp only: constant_column(2) [OF ne const])
qed

text \<open>Four copies of a sample on three probes, and a single sample on one probe.\<close>

theorem aggregate_identical_rows_witness:
  "aggregate (spec_metrics 6 9 3) (replicate 4 [1 / 2, - 1, 0]) = Inr ([1 / 2, - 1, 0], [0, 0, 0]) \<and>
   aggregate (spec_metrics 6 9 3) [[7]] = Inr ([7], [0])"
proof -
  have k: "(0::nat) < 4 \<and> [1 / 2, - 1, 0 :: real] \<noteq> []" "(0::nat) < 1 \<and> [7 :: real] \<noteq> []"
    by simp_all
  from aggregate_identical_rows [of 4 "[1 / 2, - 1, 0]" 6 9 3 "[]", THEN conjunct1, THEN mp, OF k(1)]
  have a: "aggregate (spec_metrics 6 9 3) (replicate 4 [1 / 2, - 1, 0]) = Inr ([1 / 2, - 1, 0], [0, 0, 0])"
    by (simp add: numeral_3_eq_3)
  from aggregate_identical_rows [of 1 "[7]" 6 9 3 "[]", THEN conjunct1, THEN mp, OF k(2)]
  have b: "aggregate (spec_metrics 6 9 3) [[7]] = Inr ([7], [0])"
    by simp
  from a b show ?thesis by blast
qed

text \<open>
  The claim as first stated holds for every coverage vector, without error. One sample
  without probes is a matrix of one row and no column, on which the aggregation fails.
\<close>

theorem aggregate_no_probes_counterexample:
  "aggregate (spec_metrics 6 9 3) (replicate 1 []) = Inl IndexError"
  by (simp add: aggregate_def vstack_def apply_along_axis_0_def)

end
